theory Spec2Isabelle
  imports Main
begin

text \<open>
  A model of \<^verbatim>\<open>cmd/flux/create_source_git.go\<close>, the command that creates or updates
  a GitRepository source, publishes the credentials it needs and waits for the source to
  become ready. The command's functions are embedded as functions on an explicit world
  (the objects of the control plane and the log of the calls made); what the command
  prints is not part of the model.
\<close>

section \<open>Go's formatter on a format string without operands\<close>

text \<open>
  \<^verbatim>\<open>isGitRepositoryReady\<close> builds its error with \<^verbatim>\<open>fmt.Errorf(c.Message)\<close>: the
  condition's message is the format string and the operand list is empty. The functions
  of this section follow the formatting loop of Go's \<^verbatim>\<open>fmt\<close> package
  (\<^verbatim>\<open>doPrintf\<close>, \<^verbatim>\<open>argNumber\<close>, \<^verbatim>\<open>parseArgNumber\<close>, \<^verbatim>\<open>parsenum\<close>) for that case.
  A Go string is a sequence of bytes, and so is a \<^typ>\<open>string\<close> here.
\<close>

definition isDigit :: "char \<Rightarrow> bool" where
  "isDigit c = (c \<in> set ''0123456789'')"

definition digitVal :: "char \<Rightarrow> nat" where
  "digitVal c = of_char c - 48"

definition tooLarge :: "nat \<Rightarrow> bool" where
  "tooLarge x = (x > 1000000)"

text \<open>
  \<^verbatim>\<open>parsenum(s, start, end)\<close> on the bytes \<^verbatim>\<open>s[start:end]\<close>: the number read, whether a
  digit was read, and the bytes left. On overflow Go returns \<^verbatim>\<open>(0, false, end)\<close>: nothing
  is left.
\<close>

fun parsenum :: "nat \<Rightarrow> bool \<Rightarrow> string \<Rightarrow> nat \<times> bool \<times> string" where
  "parsenum num isnum [] = (num, isnum, [])"
| "parsenum num isnum (c # cs) =
     (if isDigit c
      then (if tooLarge num then (0, False, []) else parsenum (num * 10 + digitVal c) True cs)
      else (num, isnum, c # cs))"

text \<open>
  \<^verbatim>\<open>parseArgNumber(format)\<close>, called on a string that starts with \<^verbatim>\<open>[\<close>: the number of
  bytes to skip and whether a well-formed index \<^verbatim>\<open>[n]\<close> was read.
\<close>

definition parseArgNumber :: "string \<Rightarrow> nat \<times> bool" where
  "parseArgNumber format =
     (if length format < 3 then (1, False)
      else
        (let inner = takeWhile (\<lambda>c. c \<noteq> CHR '']'') (tl format) in
         if length inner = length (tl format) then (1, False)
         else
           (case parsenum 0 False inner of
              (width, ok, left) \<Rightarrow>
                if \<not> ok \<or> left \<noteq> [] then (length inner + 2, False)
                else (length inner + 2, True))))"

text \<open>
  \<^verbatim>\<open>argNumber\<close> with no operands: no index is ever in range, so an index that is present
  always clears \<^verbatim>\<open>goodArgNum\<close>. The result is the format left, whether an index was
  found, and \<^verbatim>\<open>goodArgNum\<close>.
\<close>

definition argNumber :: "string \<Rightarrow> bool \<Rightarrow> string \<times> bool \<times> bool" where
  "argNumber format goodArgNum =
     (case format of
        [] \<Rightarrow> (format, False, goodArgNum)
      | c # cs \<Rightarrow>
          if c \<noteq> CHR ''['' then (format, False, goodArgNum)
          else (case parseArgNumber format of (wid, ok) \<Rightarrow> (drop wid format, ok, False)))"

definition inRange :: "nat \<Rightarrow> nat \<Rightarrow> char \<Rightarrow> bool" where
  "inRange lo hi c = (lo \<le> of_char c \<and> (of_char c :: nat) \<le> hi)"

definition RuneError :: string where
  "RuneError = [CHR 0xEF, CHR 0xBF, CHR 0xBD]"

text \<open>
  The verb is one rune: \<^verbatim>\<open>utf8.DecodeRuneInString\<close> reads it and \<^verbatim>\<open>writeRune\<close> writes it
  back. A valid encoding is written back as it is; an invalid byte is read as one byte
  and written as U+FFFD. The result is the bytes written and the format left.
\<close>

definition decodeRune :: "string \<Rightarrow> string \<times> string" where
  "decodeRune s =
     (case s of
        [] \<Rightarrow> ([], [])
      | c # cs \<Rightarrow>
          (let x = (of_char c :: nat) in
           if x < 128 then ([c], cs)
           else
             (case (if 194 \<le> x \<and> x \<le> 223 then (2, 128, 191)
                    else if x = 224 then (3, 160, 191)
                    else if (225 \<le> x \<and> x \<le> 236) \<or> x = 238 \<or> x = 239 then (3, 128, 191)
                    else if x = 237 then (3, 128, 159)
                    else if x = 240 then (4, 144, 191)
                    else if 241 \<le> x \<and> x \<le> 243 then (4, 128, 191)
                    else if x = 244 then (4, 128, 143)
                    else (0::nat, 0::nat, 0::nat)) of
                (sz, lo, hi) \<Rightarrow>
                  if sz = 0 \<or> length s < sz then (RuneError, cs)
                  else if \<not> inRange lo hi (s ! 1) then (RuneError, cs)
                  else if sz = 2 then (take 2 s, drop 2 s)
                  else if \<not> inRange 128 191 (s ! 2) then (RuneError, cs)
                  else if sz = 3 then (take 3 s, drop 3 s)
                  else if \<not> inRange 128 191 (s ! 3) then (RuneError, cs)
                  else (take 4 s, drop 4 s))))"

definition isFlag :: "char \<Rightarrow> bool" where
  "isFlag c = (c \<in> set ''#0+- '')"

text \<open>The width of a directive: \<^verbatim>\<open>*\<close> asks for an operand, and there is none.\<close>

definition widthStep :: "string \<Rightarrow> bool \<Rightarrow> bool \<Rightarrow> string \<times> string \<times> bool \<times> bool" where
  "widthStep format afterIndex goodArgNum =
     (case format of
        c # cs \<Rightarrow>
          if c = CHR ''*'' then (''%!(BADWIDTH)'', cs, False, goodArgNum)
          else (case parsenum 0 False format of
                  (wid, widPresent, left) \<Rightarrow>
                    ([], left, afterIndex, goodArgNum \<and> \<not> (afterIndex \<and> widPresent)))
      | [] \<Rightarrow> ([], [], afterIndex, goodArgNum))"

definition precStep :: "string \<Rightarrow> bool \<Rightarrow> bool \<Rightarrow> string \<times> string \<times> bool \<times> bool" where
  "precStep format afterIndex goodArgNum =
     (case format of
        c # cs \<Rightarrow>
          if c = CHR ''.'' then
            (case argNumber cs (goodArgNum \<and> \<not> afterIndex) of
               (f1, afterIndex1, good1) \<Rightarrow>
                 (case f1 of
                    d # ds \<Rightarrow>
                      if d = CHR ''*'' then (''%!(BADPREC)'', ds, False, good1)
                      else (case parsenum 0 False f1 of
                              (prec, precPresent, left) \<Rightarrow> ([], left, afterIndex1, good1))
                  | [] \<Rightarrow> ([], [], afterIndex1, good1)))
          else ([], format, afterIndex, goodArgNum)
      | [] \<Rightarrow> ([], [], afterIndex, goodArgNum))"

text \<open>
  One directive, read after its \<^verbatim>\<open>%\<close>: the bytes written for it and the format left.
\<close>

definition directive :: "string \<Rightarrow> string \<times> string" where
  "directive format =
     (case argNumber (dropWhile isFlag format) True of
        (f1, afterIndex1, good1) \<Rightarrow>
     (case widthStep f1 afterIndex1 good1 of
        (out2, f2, afterIndex2, good2) \<Rightarrow>
     (case precStep f2 afterIndex2 good2 of
        (out3, f3, afterIndex3, good3) \<Rightarrow>
     (case (if \<not> afterIndex3 then argNumber f3 good3 else (f3, afterIndex3, good3)) of
        (f4, afterIndex4, good4) \<Rightarrow>
          if f4 = [] then (out2 @ out3 @ ''%!(NOVERB)'', [])
          else
            (case decodeRune f4 of
               (verb, left) \<Rightarrow>
                 if verb = ''%'' then (out2 @ out3 @ ''%'', left)
                 else if \<not> good4 then (out2 @ out3 @ ''%!'' @ verb @ ''(BADINDEX)'', left)
                 else (out2 @ out3 @ ''%!'' @ verb @ ''(MISSING)'', left))))))"

lemma parsenum_length: "length (snd (snd (parsenum n b s))) \<le> length s"
  by (induction s arbitrary: n b) (auto simp: le_SucI)

lemma parseArgNumber_pos: "0 < fst (parseArgNumber s)"
  by (auto simp: parseArgNumber_def Let_def split: prod.splits)

lemma argNumber_length: "length (fst (argNumber s g)) \<le> length s"
  by (auto simp: argNumber_def split: list.splits prod.splits)

lemma decodeRune_length: "s \<noteq> [] \<Longrightarrow> length (snd (decodeRune s)) < length s"
  by (auto simp: decodeRune_def Let_def split: list.splits prod.splits)

lemma widthStep_length: "length (fst (snd (widthStep s a g))) \<le> length s"
proof (cases s)
  case Nil
  then show ?thesis by (simp add: widthStep_def)
next
  case (Cons c cs)
  have "length (snd (snd (parsenum 0 False s))) \<le> length s"
    by (rule parsenum_length)
  with Cons show ?thesis
    by (auto simp: widthStep_def split: prod.splits)
qed

lemma precStep_length: "length (fst (snd (precStep s a g))) \<le> length s"
proof (cases s)
  case Nil
  then show ?thesis by (simp add: precStep_def)
next
  case (Cons c cs)
  show ?thesis
  proof (cases "c = CHR ''.''")
    case False
    with Cons show ?thesis by (simp add: precStep_def)
  next
    case True
    obtain f1 a1 g1 where an: "argNumber cs (g \<and> \<not> a) = (f1, a1, g1)"
      by (cases "argNumber cs (g \<and> \<not> a)") auto
    have l1: "length f1 \<le> length cs"
      using argNumber_length [of cs "g \<and> \<not> a"] an by simp
    have l2: "length (snd (snd (parsenum 0 False f1))) \<le> length f1"
      by (rule parsenum_length)
    from Cons True an l1 l2 show ?thesis
      by (auto simp: precStep_def split: list.splits prod.splits)
  qed
qed

lemma directive_length: "length (snd (directive s)) \<le> length s"
proof -
  let ?s0 = "dropWhile isFlag s"
  have l0: "length ?s0 \<le> length s" by (rule length_dropWhile_le)
  obtain f1 a1 g1 where e1: "argNumber ?s0 True = (f1, a1, g1)"
    by (cases "argNumber ?s0 True") auto
  have l1: "length f1 \<le> length ?s0" using argNumber_length [of ?s0 True] e1 by simp
  obtain o2 f2 a2 g2 where e2: "widthStep f1 a1 g1 = (o2, f2, a2, g2)"
    by (cases "widthStep f1 a1 g1") auto
  have l2: "length f2 \<le> length f1" using widthStep_length [of f1 a1 g1] e2 by simp
  obtain o3 f3 a3 g3 where e3: "precStep f2 a2 g2 = (o3, f3, a3, g3)"
    by (cases "precStep f2 a2 g2") auto
  have l3: "length f3 \<le> length f2" using precStep_length [of f2 a2 g2] e3 by simp
  obtain f4 a4 g4 where
    e4: "(if \<not> a3 then argNumber f3 g3 else (f3, a3, g3)) = (f4, a4, g4)"
    by (cases "if \<not> a3 then argNumber f3 g3 else (f3, a3, g3)") auto
  have l4: "length f4 \<le> length f3"
    using argNumber_length [of f3 g3] e4 by (auto split: if_splits)
  have l5: "f4 \<noteq> [] \<Longrightarrow> length (snd (decodeRune f4)) < length f4"
    by (rule decodeRune_length)
  have "length (snd (directive s)) \<le> length f4"
    using l5 by (auto simp: directive_def e1 e2 e3 e4 split: prod.splits)
  with l0 l1 l2 l3 l4 show ?thesis by linarith
qed

function doPrintf :: "string \<Rightarrow> string" where
  "doPrintf [] = []"
| "doPrintf (c # cs) =
     (if c \<noteq> CHR ''%'' then c # doPrintf cs
      else (case directive cs of (out, left) \<Rightarrow> out @ doPrintf left))"
  by pat_completeness auto
termination
  apply (relation "measure length")
    apply simp_all
  using directive_length
  apply (metis snd_conv le_imp_less_Suc)
  done

section \<open>Data model\<close>

text \<open>
  The Kubernetes and source-controller types, with the fields this command reads or
  writes and the server-assigned metadata the update path carries over. An embedded or
  pointed-to struct is a record; a pointer that may be nil is an \<open>option\<close>; a Go map
  is a map.
\<close>

record ObjectMeta =
  Name :: string
  Namespace :: string
  Labels :: "string \<rightharpoonup> string"
  Annotations :: "string \<rightharpoonup> string"
  ResourceVersion :: string
  UID :: string
  Generation :: int

record GitRepositoryRef =
  Branch :: string
  Tag :: string
  SemVer :: string
  Commit :: string

text \<open>
  \<^verbatim>\<open>SecretRef\<close> is a \<^verbatim>\<open>*corev1.LocalObjectReference\<close>, a struct whose one field is the
  name: \<open>Some n\<close> is a reference to the secret \<open>n\<close>, \<open>None\<close> is nil.
\<close>

record GitRepositorySpec =
  URL :: string
  SecretRef :: "string option"
  Interval :: int
  Reference :: "GitRepositoryRef option"
  GitImplementation :: string

type_synonym ConditionStatus = string

definition ConditionTrue :: ConditionStatus where "ConditionTrue = ''True''"
definition ConditionFalse :: ConditionStatus where "ConditionFalse = ''False''"
definition ConditionUnknown :: ConditionStatus where "ConditionUnknown = ''Unknown''"

definition ReadyCondition :: string where "ReadyCondition = ''Ready''"

text \<open>\<^verbatim>\<open>metav1.Condition\<close>; its field \<^verbatim>\<open>Status\<close> is \<open>CStatus\<close> here.\<close>

record Condition =
  Type :: string
  CStatus :: ConditionStatus
  Reason :: string
  Message :: string

record Artifact =
  Path :: string
  Revision :: string
  Checksum :: string

record GitRepositoryStatus =
  ObservedGeneration :: int
  Conditions :: "Condition list"
  Artifact :: "Artifact option"

record GitRepository =
  ObjectMeta :: ObjectMeta
  Spec :: GitRepositorySpec
  Status :: GitRepositoryStatus

text \<open>\<^verbatim>\<open>corev1.Secret\<close>; its embedded \<^verbatim>\<open>ObjectMeta\<close> is \<open>SecretMeta\<close> here.\<close>

record Secret =
  SecretMeta :: ObjectMeta
  StringData :: "string \<rightharpoonup> string"

record KeyPair =
  PublicKey :: string
  PrivateKey :: string

text \<open>\<^verbatim>\<open>url.URL\<close>, as \<^verbatim>\<open>url.Parse\<close> returns it.\<close>

record url =
  Scheme :: string
  User :: string
  Host :: string
  UrlPath :: string

text \<open>\<^verbatim>\<open>types.NamespacedName\<close>: the namespace, then the name.\<close>

type_synonym NamespacedName = "string \<times> string"

text \<open>
  Every error the command returns. The first six are the ones it builds itself;
  \<open>ErrCondition\<close> carries the text \<^verbatim>\<open>fmt.Errorf(c.Message)\<close> produced.
  \<open>ErrWaitTimeout\<close> is \<^verbatim>\<open>wait.ErrWaitTimeout\<close>, \<open>ErrNotFound\<close> and \<open>ErrAlreadyExists\<close>
  are the API errors of those reasons, and \<open>ErrOther\<close> is any other error of a
  collaborator.
\<close>

datatype error =
    ErrNameRequired
  | ErrURLRequired
  | ErrURLParse error
  | ErrInvalidImplementation string
  | ErrAborting
  | ErrNoArtifact
  | ErrCondition string
  | ErrWaitTimeout
  | ErrNotFound
  | ErrAlreadyExists
  | ErrOther string

definition IsNotFound :: "error \<Rightarrow> bool" where
  "IsNotFound err = (err = ErrNotFound)"

text \<open>The command's flags and the global flags it reads.\<close>

record flags =
  args :: "string list"
  sourceGitURL :: string
  sourceGitBranch :: string
  sourceGitTag :: string
  sourceGitSemver :: string
  sourceGitUsername :: string
  sourceGitPassword :: string
  sourceGitKeyAlgorithm :: string
  sourceGitRSABits :: nat
  sourceGitECDSACurve :: string
  sourceGitSecretRef :: string
  sourceGitImplementation :: string
  export :: bool
  namespace :: string
  interval :: int

text \<open>
  What the command does to the world outside it, in the order it does it: each call of
  a collaborator is one event, logged when the call is made, whatever it returns.
\<close>

datatype event =
    EvGenerateKeyPair string nat string
  | EvPrompt
  | EvScanHostKey url
  | EvUpsertSecret Secret
  | EvExportGit GitRepository
  | EvKubeClient
  | EvGet NamespacedName
  | EvCreate GitRepository
  | EvUpdate GitRepository

text \<open>
  The world: the events so far, and the GitRepository objects of the control plane by
  namespace and name.
\<close>

record world =
  events :: "event list"
  cluster :: "NamespacedName \<rightharpoonup> GitRepository"

text \<open>
  The collaborators whose code is not part of this command, each by what it returns:
  the standard library (\<^verbatim>\<open>ioutil.TempDir\<close>, \<^verbatim>\<open>url.Parse\<close>), the helpers of the
  command-line tool (\<^verbatim>\<open>parseLabels\<close>, \<^verbatim>\<open>utils.KubeClient\<close>, \<^verbatim>\<open>generateKeyPair\<close>,
  \<^verbatim>\<open>scanHostKey\<close>, \<^verbatim>\<open>upsertSecret\<close>, \<^verbatim>\<open>exportGit\<close>), the confirmation prompt, the
  failures of the cluster client other than those the store itself decides, and what the
  control plane answers to each read of the polling loop before the deadline (the
  reconciliation controller changes the object between two reads).
\<close>

record env =
  env_TempDir :: "string \<Rightarrow> error option"
  env_Parse :: "string \<Rightarrow> error + url"
  env_parseLabels :: "error + (string \<rightharpoonup> string)"
  env_KubeClient :: "error option"
  env_generateKeyPair :: "string \<Rightarrow> nat \<Rightarrow> string \<Rightarrow> error + KeyPair"
  env_promptRun :: "error option"
  env_scanHostKey :: "url \<Rightarrow> error + string"
  env_upsertSecret :: "Secret \<Rightarrow> error option"
  env_exportGit :: "GitRepository \<Rightarrow> error option"
  env_GetErr :: "NamespacedName \<Rightarrow> error option"
  env_CreateErr :: "GitRepository \<Rightarrow> error option"
  env_UpdateErr :: "GitRepository \<Rightarrow> error option"
  env_polls :: "(error + GitRepository) list"

definition logEvent :: "event \<Rightarrow> world \<Rightarrow> world" where
  "logEvent e w = w\<lparr>events := events w @ [e]\<rparr>"

section \<open>The cluster client\<close>

text \<open>
  Modelled from the spec: the cluster client (\<^verbatim>\<open>client.Client\<close> of controller-runtime)
  is not part of the command; the spec has it as "a cluster-client capability object
  providing get, create, update", read-then-write with no locking. The control plane is
  a store of objects by namespace and name: a read of a missing object is \<open>ErrNotFound\<close>,
  a create stores the object unless one is there, an update replaces the object that is
  there. Any call may also fail for a reason of its own (\<open>env_GetErr\<close>, \<open>env_CreateErr\<close>,
  \<open>env_UpdateErr\<close>), and then it changes nothing.
\<close>

definition namespacedNameOf :: "GitRepository \<Rightarrow> NamespacedName" where
  "namespacedNameOf g = (Namespace (ObjectMeta g), Name (ObjectMeta g))"

definition kubeClient_Get :: "env \<Rightarrow> NamespacedName \<Rightarrow> world \<Rightarrow> (error + GitRepository) \<times> world" where
  "kubeClient_Get e nn w =
     ((case env_GetErr e nn of
         Some err \<Rightarrow> Inl err
       | None \<Rightarrow> (case cluster w nn of None \<Rightarrow> Inl ErrNotFound | Some g \<Rightarrow> Inr g)),
      logEvent (EvGet nn) w)"

definition kubeClient_Create :: "env \<Rightarrow> GitRepository \<Rightarrow> world \<Rightarrow> error option \<times> world" where
  "kubeClient_Create e g w =
     (let w1 = logEvent (EvCreate g) w in
      case env_CreateErr e g of
        Some err \<Rightarrow> (Some err, w1)
      | None \<Rightarrow>
          (case cluster w (namespacedNameOf g) of
             Some other \<Rightarrow> (Some ErrAlreadyExists, w1)
           | None \<Rightarrow> (None, w1\<lparr>cluster := (cluster w1)(namespacedNameOf g \<mapsto> g)\<rparr>)))"

definition kubeClient_Update :: "env \<Rightarrow> GitRepository \<Rightarrow> world \<Rightarrow> error option \<times> world" where
  "kubeClient_Update e g w =
     (let w1 = logEvent (EvUpdate g) w in
      case env_UpdateErr e g of
        Some err \<Rightarrow> (Some err, w1)
      | None \<Rightarrow>
          (case cluster w (namespacedNameOf g) of
             None \<Rightarrow> (Some ErrNotFound, w1)
           | Some other \<Rightarrow> (None, w1\<lparr>cluster := (cluster w1)(namespacedNameOf g \<mapsto> g)\<rparr>)))"

section \<open>The other collaborators, as calls\<close>

definition generateKeyPair :: "env \<Rightarrow> flags \<Rightarrow> world \<Rightarrow> (error + KeyPair) \<times> world" where
  "generateKeyPair e fl w =
     (env_generateKeyPair e (sourceGitKeyAlgorithm fl) (sourceGitRSABits fl) (sourceGitECDSACurve fl),
      logEvent (EvGenerateKeyPair (sourceGitKeyAlgorithm fl) (sourceGitRSABits fl)
                  (sourceGitECDSACurve fl)) w)"

definition promptRun :: "env \<Rightarrow> world \<Rightarrow> error option \<times> world" where
  "promptRun e w = (env_promptRun e, logEvent EvPrompt w)"

definition scanHostKey :: "env \<Rightarrow> url \<Rightarrow> world \<Rightarrow> (error + string) \<times> world" where
  "scanHostKey e u w = (env_scanHostKey e u, logEvent (EvScanHostKey u) w)"

definition upsertSecret :: "env \<Rightarrow> Secret \<Rightarrow> world \<Rightarrow> error option \<times> world" where
  "upsertSecret e secret w = (env_upsertSecret e secret, logEvent (EvUpsertSecret secret) w)"

definition exportGit :: "env \<Rightarrow> GitRepository \<Rightarrow> world \<Rightarrow> error option \<times> world" where
  "exportGit e g w = (env_exportGit e g, logEvent (EvExportGit g) w)"

definition KubeClient :: "env \<Rightarrow> world \<Rightarrow> error option \<times> world" where
  "KubeClient e w = (env_KubeClient e, logEvent EvKubeClient w)"

section \<open>upsertGitRepository\<close>

text \<open>
  The existing object is read, its labels and its spec are overwritten, and the object
  is sent back. The assignment \<^verbatim>\<open>gitRepository = &existing\<close> changes the function's own
  pointer only, so the caller's object is what it was.
\<close>

definition upsertGitRepository ::
  "env \<Rightarrow> GitRepository \<Rightarrow> world \<Rightarrow> (NamespacedName \<times> error option) \<times> world" where
  "upsertGitRepository e gitRepository w =
     (let namespacedName = (Namespace (ObjectMeta gitRepository), Name (ObjectMeta gitRepository)) in
      case kubeClient_Get e namespacedName w of
        (Inl err, w1) \<Rightarrow>
          if IsNotFound err then
            (case kubeClient_Create e gitRepository w1 of
               (Some err2, w2) \<Rightarrow> ((namespacedName, Some err2), w2)
             | (None, w2) \<Rightarrow> ((namespacedName, None), w2))
          else ((namespacedName, Some err), w1)
      | (Inr existing, w1) \<Rightarrow>
          (let existing1 = existing\<lparr>ObjectMeta := (ObjectMeta existing)\<lparr>Labels := Labels (ObjectMeta gitRepository)\<rparr>\<rparr>;
               existing2 = existing1\<lparr>Spec := Spec gitRepository\<rparr> in
           case kubeClient_Update e existing2 w1 of
             (Some err2, w2) \<Rightarrow> ((namespacedName, Some err2), w2)
           | (None, w2) \<Rightarrow> ((namespacedName, None), w2)))"

section \<open>isGitRepositoryReady and the polling loop\<close>

text \<open>
  Modelled from the spec: \<^verbatim>\<open>apimeta.FindStatusCondition\<close> is a library function; the spec
  has it as the lookup of a condition by its type in the list of conditions. The first
  condition of that type is returned, none if there is none.
\<close>

definition FindStatusCondition :: "Condition list \<Rightarrow> string \<Rightarrow> Condition option" where
  "FindStatusCondition conditions conditionType = find (\<lambda>c. Type c = conditionType) conditions"

text \<open>
  One call of the condition function that \<^verbatim>\<open>isGitRepositoryReady\<close> returns. \<open>obs\<close>
  is what \<^verbatim>\<open>kubeClient.Get\<close> answers to this call; a successful read overwrites the
  caller's \<^verbatim>\<open>gitRepository\<close>, which the closure holds by pointer.
\<close>

definition isGitRepositoryReady ::
  "NamespacedName \<Rightarrow> (error + GitRepository) \<Rightarrow> GitRepository \<times> world
     \<Rightarrow> (bool \<times> error option) \<times> (GitRepository \<times> world)" where
  "isGitRepositoryReady namespacedName obs st =
     (case st of (gitRepository, w) \<Rightarrow>
      (let w1 = logEvent (EvGet namespacedName) w in
       case obs of
         Inl err \<Rightarrow> ((False, Some err), (gitRepository, w1))
       | Inr g \<Rightarrow>
           (case FindStatusCondition (Conditions (Status g)) ReadyCondition of
              Some c \<Rightarrow>
                if CStatus c = ConditionTrue then ((True, None), (g, w1))
                else if CStatus c = ConditionFalse
                  then ((False, Some (ErrCondition (doPrintf (Message c)))), (g, w1))
                else ((False, None), (g, w1))
            | None \<Rightarrow> ((False, None), (g, w1)))))"

text \<open>
  Modelled from the spec: \<^verbatim>\<open>wait.PollImmediate\<close> is a library function; the spec has the
  driving loop as "poll at a fixed interval, bounded by an overall deadline; exceeding
  the deadline while still Pending yields a Timeout outcome distinct from Failed", and
  a read error as "propagated immediately". Time is the list of answers the control
  plane gives before the deadline, one for each call of the condition: the loop calls
  the condition on each in turn, returns its error if it has one, returns no error if it
  is done, and returns \<open>ErrWaitTimeout\<close> when the list is used up.
\<close>

fun PollImmediate ::
  "('o \<Rightarrow> 's \<Rightarrow> (bool \<times> error option) \<times> 's) \<Rightarrow> 'o list \<Rightarrow> 's \<Rightarrow> error option \<times> 's" where
  "PollImmediate condition [] st = (Some ErrWaitTimeout, st)"
| "PollImmediate condition (obs # rest) st =
     (case condition obs st of
        ((done, Some err), st1) \<Rightarrow> (Some err, st1)
      | ((True, None), st1) \<Rightarrow> (None, st1)
      | ((False, None), st1) \<Rightarrow> PollImmediate condition rest st1)"

section \<open>createSourceGitCmdRun\<close>

text \<open>
  The two implementation names are constants of the source-controller API; the flag's
  help text names them: "can be 'go-git' or 'libgit2'".
\<close>

definition GoGitImplementation :: string where "GoGitImplementation = ''go-git''"
definition LibGit2Implementation :: string where "LibGit2Implementation = ''libgit2''"

definition ContainsItemString :: "string list \<Rightarrow> string \<Rightarrow> bool" where
  "ContainsItemString xs x = (x \<in> set xs)"

text \<open>
  The checks at the head of the function, up to the check of the git implementation:
  the name, the parsed address and the labels, or the error of the first check that
  fails. The temporary directory is made and removed on return; nothing else uses it.
\<close>

definition parseInputs :: "env \<Rightarrow> flags \<Rightarrow> error + (string \<times> url \<times> (string \<rightharpoonup> string))" where
  "parseInputs e fl =
     (case args fl of
        [] \<Rightarrow> Inl ErrNameRequired
      | name # others \<Rightarrow>
          if sourceGitURL fl = [] then Inl ErrURLRequired
          else
            (case env_TempDir e name of
               Some err \<Rightarrow> Inl err
             | None \<Rightarrow>
                 (case env_Parse e (sourceGitURL fl) of
                    Inl err \<Rightarrow> Inl (ErrURLParse err)
                  | Inr u \<Rightarrow>
                      (case env_parseLabels e of
                         Inl err \<Rightarrow> Inl err
                       | Inr sourceLabels \<Rightarrow>
                           if \<not> ContainsItemString
                                  [GoGitImplementation, LibGit2Implementation, []]
                                  (sourceGitImplementation fl)
                           then Inl (ErrInvalidImplementation (sourceGitImplementation fl))
                           else Inr (name, u, sourceLabels)))))"

definition newObjectMeta :: "string \<Rightarrow> string \<Rightarrow> (string \<rightharpoonup> string) \<Rightarrow> ObjectMeta" where
  "newObjectMeta name ns sourceLabels =
     \<lparr>Name = name, Namespace = ns, Labels = sourceLabels, Annotations = Map.empty,
      ResourceVersion = [], UID = [], Generation = 0\<rparr>"

definition emptyRef :: GitRepositoryRef where
  "emptyRef = \<lparr>Branch = [], Tag = [], SemVer = [], Commit = []\<rparr>"

text \<open>The object as it is built, with its revision selector.\<close>

definition newGitRepository :: "flags \<Rightarrow> string \<Rightarrow> (string \<rightharpoonup> string) \<Rightarrow> GitRepository" where
  "newGitRepository fl name sourceLabels =
     \<lparr>ObjectMeta = newObjectMeta name (namespace fl) sourceLabels,
      Spec = \<lparr>URL = sourceGitURL fl,
              SecretRef = None,
              Interval = interval fl,
              Reference = Some
                (if sourceGitSemver fl \<noteq> [] then emptyRef\<lparr>SemVer := sourceGitSemver fl\<rparr>
                 else if sourceGitTag fl \<noteq> [] then emptyRef\<lparr>Tag := sourceGitTag fl\<rparr>
                 else emptyRef\<lparr>Branch := sourceGitBranch fl\<rparr>),
              GitImplementation = sourceGitImplementation fl\<rparr>,
      Status = \<lparr>ObservedGeneration = 0, Conditions = [], Artifact = None\<rparr>\<rparr>"

definition sshSecret :: "flags \<Rightarrow> string \<Rightarrow> (string \<rightharpoonup> string) \<Rightarrow> KeyPair \<Rightarrow> string \<Rightarrow> Secret" where
  "sshSecret fl name sourceLabels pair hostKey =
     \<lparr>SecretMeta = newObjectMeta name (namespace fl) sourceLabels,
      StringData = [''identity'' \<mapsto> PrivateKey pair,
                    ''identity.pub'' \<mapsto> PublicKey pair,
                    ''known_hosts'' \<mapsto> hostKey]\<rparr>"

definition basicAuthSecret :: "flags \<Rightarrow> string \<Rightarrow> (string \<rightharpoonup> string) \<Rightarrow> Secret" where
  "basicAuthSecret fl name sourceLabels =
     \<lparr>SecretMeta = newObjectMeta name (namespace fl) sourceLabels,
      StringData = [''username'' \<mapsto> sourceGitUsername fl,
                    ''password'' \<mapsto> sourceGitPassword fl]\<rparr>"

text \<open>
  The preparation of the credentials, from \<^verbatim>\<open>withAuth := false\<close> to the end of the chain
  of \<^verbatim>\<open>if\<close>s: the value of \<^verbatim>\<open>withAuth\<close>, or the error the function returns with.
\<close>

definition configureAuth ::
  "env \<Rightarrow> flags \<Rightarrow> string \<Rightarrow> (string \<rightharpoonup> string) \<Rightarrow> url \<Rightarrow> world \<Rightarrow> (error + bool) \<times> world" where
  "configureAuth e fl name sourceLabels u w =
     (if sourceGitSecretRef fl \<noteq> [] then (Inr True, w)
      else if Scheme u = ''ssh'' then
        (case generateKeyPair e fl w of
           (Inl err, w1) \<Rightarrow> (Inl err, w1)
         | (Inr pair, w1) \<Rightarrow>
             (case promptRun e w1 of
                (Some err, w2) \<Rightarrow> (Inl ErrAborting, w2)
              | (None, w2) \<Rightarrow>
                  (case scanHostKey e u w2 of
                     (Inl err, w3) \<Rightarrow> (Inl err, w3)
                   | (Inr hostKey, w3) \<Rightarrow>
                       (case upsertSecret e (sshSecret fl name sourceLabels pair hostKey) w3 of
                          (Some err, w4) \<Rightarrow> (Inl err, w4)
                        | (None, w4) \<Rightarrow> (Inr True, w4)))))
      else if sourceGitUsername fl \<noteq> [] \<and> sourceGitPassword fl \<noteq> [] then
        (case upsertSecret e (basicAuthSecret fl name sourceLabels) w of
           (Some err, w1) \<Rightarrow> (Inl err, w1)
         | (None, w1) \<Rightarrow> (Inr True, w1))
      else (Inr False, w))"

text \<open>The credential reference that is set on the object when \<^verbatim>\<open>withAuth\<close> holds.\<close>

definition withSecretRef :: "flags \<Rightarrow> string \<Rightarrow> bool \<Rightarrow> GitRepository \<Rightarrow> GitRepository" where
  "withSecretRef fl name withAuth gitRepository =
     (if withAuth then
        (let secretName = (if sourceGitSecretRef fl \<noteq> [] then sourceGitSecretRef fl else name) in
         gitRepository\<lparr>Spec := (Spec gitRepository)\<lparr>SecretRef := Some secretName\<rparr>\<rparr>)
      else gitRepository)"

text \<open>
  The object is applied, the loop waits for it, and the artifact of the object last
  read is checked.
\<close>

definition applyAndWait :: "env \<Rightarrow> GitRepository \<Rightarrow> world \<Rightarrow> error option \<times> world" where
  "applyAndWait e gitRepository w =
     (case upsertGitRepository e gitRepository w of
        ((namespacedName, Some err), w1) \<Rightarrow> (Some err, w1)
      | ((namespacedName, None), w1) \<Rightarrow>
          (case PollImmediate (isGitRepositoryReady namespacedName) (env_polls e) (gitRepository, w1) of
             (Some err, (g, w2)) \<Rightarrow> (Some err, w2)
           | (None, (g, w2)) \<Rightarrow>
               if Artifact (Status g) = None then (Some ErrNoArtifact, w2)
               else (None, w2)))"

definition createSourceGitCmdRun :: "env \<Rightarrow> flags \<Rightarrow> world \<Rightarrow> error option \<times> world" where
  "createSourceGitCmdRun e fl w =
     (case parseInputs e fl of
        Inl err \<Rightarrow> (Some err, w)
      | Inr (name, u, sourceLabels) \<Rightarrow>
          (let gitRepository = newGitRepository fl name sourceLabels in
           if export fl then
             exportGit e
               (if sourceGitSecretRef fl \<noteq> []
                then gitRepository\<lparr>Spec := (Spec gitRepository)\<lparr>SecretRef := Some (sourceGitSecretRef fl)\<rparr>\<rparr>
                else gitRepository) w
           else
             (case KubeClient e w of
                (Some err, w1) \<Rightarrow> (Some err, w1)
              | (None, w1) \<Rightarrow>
                  (case configureAuth e fl name sourceLabels u w1 of
                     (Inl err, w2) \<Rightarrow> (Some err, w2)
                   | (Inr withAuth, w2) \<Rightarrow>
                       applyAndWait e (withSecretRef fl name withAuth gitRepository) w2))))"

section \<open>Vocabulary of the properties\<close>

text \<open>
  What one read of the object says about readiness: the status and the message of its
  first condition of type Ready, if it has one. An object is pending when it has no such
  condition or when the status of the condition is neither True nor False.
\<close>

definition readyStatus :: "GitRepository \<Rightarrow> (ConditionStatus \<times> string) option" where
  "readyStatus g =
     (case FindStatusCondition (Conditions (Status g)) ReadyCondition of
        None \<Rightarrow> None
      | Some c \<Rightarrow> Some (CStatus c, Message c))"

definition pending :: "GitRepository \<Rightarrow> bool" where
  "pending g =
     (case readyStatus g of
        None \<Rightarrow> True
      | Some (s, m) \<Rightarrow> s \<noteq> ConditionTrue \<and> s \<noteq> ConditionFalse)"

definition pendingObs :: "(error + GitRepository) \<Rightarrow> bool" where
  "pendingObs obs = (case obs of Inl err \<Rightarrow> False | Inr g \<Rightarrow> pending g)"

definition lastRead :: "(error + GitRepository) list \<Rightarrow> GitRepository \<Rightarrow> GitRepository" where
  "lastRead obss g = fold (\<lambda>obs g0. case obs of Inl err \<Rightarrow> g0 | Inr g1 \<Rightarrow> g1) obss g"

definition logGets :: "NamespacedName \<Rightarrow> nat \<Rightarrow> world \<Rightarrow> world" where
  "logGets nn n w = w\<lparr>events := events w @ replicate n (EvGet nn)\<rparr>"

text \<open>
  The events of the control plane's client, and the events that one run of the command
  adds to the world's.
\<close>

fun isClientEvent :: "event \<Rightarrow> bool" where
  "isClientEvent (EvGet nn) = True"
| "isClientEvent (EvCreate g) = True"
| "isClientEvent (EvUpdate g) = True"
| "isClientEvent ev = False"

definition trace :: "env \<Rightarrow> flags \<Rightarrow> world \<Rightarrow> event list" where
  "trace e fl w = drop (length (events w)) (events (snd (createSourceGitCmdRun e fl w)))"

text \<open>
  The object an export run hands to \<^verbatim>\<open>exportGit\<close>, the event of the key generation
  with the flags' parameters, and the events that the preparation of the credentials adds.
\<close>

definition exported :: "flags \<Rightarrow> string \<Rightarrow> (string \<rightharpoonup> string) \<Rightarrow> GitRepository" where
  "exported fl name ls =
     (if sourceGitSecretRef fl \<noteq> []
      then (newGitRepository fl name ls)
             \<lparr>Spec := (Spec (newGitRepository fl name ls))\<lparr>SecretRef := Some (sourceGitSecretRef fl)\<rparr>\<rparr>
      else newGitRepository fl name ls)"

definition keyPairEvent :: "flags \<Rightarrow> event" where
  "keyPairEvent fl =
     EvGenerateKeyPair (sourceGitKeyAlgorithm fl) (sourceGitRSABits fl) (sourceGitECDSACurve fl)"

definition authTrace ::
  "env \<Rightarrow> flags \<Rightarrow> string \<Rightarrow> (string \<rightharpoonup> string) \<Rightarrow> url \<Rightarrow> world \<Rightarrow> event list" where
  "authTrace e fl name ls u w =
     drop (length (events w)) (events (snd (configureAuth e fl name ls u w)))"

section \<open>Example inputs\<close>

text \<open>
  Concrete objects, flags and collaborators, on which the theorems below are run: the
  source \<open>podinfo\<close> in the namespace \<open>flux-system\<close>, an environment in which every
  collaborator succeeds, and variations of both.
\<close>

definition mkCondition :: "ConditionStatus \<Rightarrow> string \<Rightarrow> Condition" where
  "mkCondition s m = \<lparr>Type = ReadyCondition, CStatus = s, Reason = [], Message = m\<rparr>"

definition exampleObject :: "Condition list \<Rightarrow> Artifact option \<Rightarrow> GitRepository" where
  "exampleObject cs a =
     \<lparr>ObjectMeta = \<lparr>Name = ''podinfo'', Namespace = ''flux-system'', Labels = Map.empty,
                     Annotations = Map.empty, ResourceVersion = ''41'', UID = ''u-1'',
                     Generation = 1\<rparr>,
      Spec = \<lparr>URL = ''https://github.com/stefanprodan/podinfo'', SecretRef = None,
              Interval = 60, Reference = Some (emptyRef\<lparr>Branch := ''master''\<rparr>),
              GitImplementation = []\<rparr>,
      Status = \<lparr>ObservedGeneration = 1, Conditions = cs, Artifact = a\<rparr>\<rparr>"

definition exampleArtifact :: Artifact where
  "exampleArtifact = \<lparr>Path = ''gitrepository/flux-system/podinfo/abc.tar.gz'',
                       Revision = ''master/abc'', Checksum = ''c0ffee''\<rparr>"

definition emptyWorld :: world where
  "emptyWorld = \<lparr>events = [], cluster = Map.empty\<rparr>"

definition exampleEnv :: env where
  "exampleEnv =
     \<lparr>env_TempDir = (\<lambda>name. None),
      env_Parse = (\<lambda>s. Inr \<lparr>Scheme = ''https'', User = [], Host = ''github.com'',
                             UrlPath = ''/stefanprodan/podinfo''\<rparr>),
      env_parseLabels = Inr Map.empty,
      env_KubeClient = None,
      env_generateKeyPair = (\<lambda>alg bits curve. Inr \<lparr>PublicKey = ''ssh-rsa AAAA'', PrivateKey = ''PRIVATE''\<rparr>),
      env_promptRun = None,
      env_scanHostKey = (\<lambda>u. Inr ''github.com ssh-rsa BBBB''),
      env_upsertSecret = (\<lambda>s. None),
      env_exportGit = (\<lambda>g. None),
      env_GetErr = (\<lambda>nn. None),
      env_CreateErr = (\<lambda>g. None),
      env_UpdateErr = (\<lambda>g. None),
      env_polls = []\<rparr>"

definition exampleFlags :: flags where
  "exampleFlags =
     \<lparr>args = [''podinfo''],
      sourceGitURL = ''https://github.com/stefanprodan/podinfo'',
      sourceGitBranch = ''master'',
      sourceGitTag = [],
      sourceGitSemver = [],
      sourceGitUsername = [],
      sourceGitPassword = [],
      sourceGitKeyAlgorithm = ''rsa'',
      sourceGitRSABits = 2048,
      sourceGitECDSACurve = ''p384'',
      sourceGitSecretRef = [],
      sourceGitImplementation = [],
      export = False,
      namespace = ''flux-system'',
      interval = 60\<rparr>"

definition urlMessage :: string where
  "urlMessage = ''unable to clone https://example.com/my%20repo: authentication required''"

definition httpsUrl :: url where
  "httpsUrl = \<lparr>Scheme = ''https'', User = [], Host = ''github.com'',
                UrlPath = ''/stefanprodan/podinfo''\<rparr>"

definition sshUrl :: url where
  "sshUrl = \<lparr>Scheme = ''ssh'', User = ''git'', Host = ''github.com'',
              UrlPath = ''/stefanprodan/podinfo''\<rparr>"

definition readyObject :: GitRepository where
  "readyObject = exampleObject [mkCondition ConditionTrue ''Fetched revision: master/abc'']
                   (Some exampleArtifact)"

definition readyNoArtifact :: GitRepository where
  "readyNoArtifact = exampleObject [mkCondition ConditionTrue ''Fetched revision: master/abc''] None"

definition podinfo :: NamespacedName where
  "podinfo = (''flux-system'', ''podinfo'')"

definition sshEnv :: env where
  "sshEnv = exampleEnv\<lparr>env_Parse := \<lambda>s. Inr sshUrl\<rparr>"

definition exampleKeyPair :: KeyPair where
  "exampleKeyPair = \<lparr>PublicKey = ''ssh-rsa AAAA'', PrivateKey = ''PRIVATE''\<rparr>"

definition existingObject :: GitRepository where
  "existingObject =
     exampleObject [mkCondition ConditionTrue ''Fetched revision: master/abc'']
       (Some exampleArtifact)
     \<lparr>Spec := \<lparr>URL = ''https://github.com/stefanprodan/old'', SecretRef = Some ''old-secret'',
                Interval = 300, Reference = Some (emptyRef\<lparr>Tag := ''1.0.0''\<rparr>),
                GitImplementation = []\<rparr>\<rparr>"

definition desiredObject :: GitRepository where
  "desiredObject = newGitRepository exampleFlags ''podinfo'' [''team'' \<mapsto> ''dev'']"

section \<open>The readiness poller\<close>

text \<open>
  A message without \<open>%\<close> is formatted as itself; each read of the poller is one
  \<open>EvGet\<close>; a prefix of pending reads is skipped, and the object last read is kept.
\<close>

lemma doPrintf_no_percent: "CHR ''%'' \<notin> set s \<Longrightarrow> doPrintf s = s"
  by (induction s) auto

lemma ready_True:
  "readyStatus g = Some (ConditionTrue, m) \<Longrightarrow>
   isGitRepositoryReady nn (Inr g) (g0, w) = ((True, None), (g, logGets nn 1 w))"
  by (auto simp: readyStatus_def isGitRepositoryReady_def logGets_def logEvent_def
      split: option.splits)

lemma ready_False:
  "readyStatus g = Some (ConditionFalse, m) \<Longrightarrow>
   isGitRepositoryReady nn (Inr g) (g0, w) =
     ((False, Some (ErrCondition (doPrintf m))), (g, logGets nn 1 w))"
  by (auto simp: readyStatus_def isGitRepositoryReady_def logGets_def logEvent_def
      ConditionTrue_def ConditionFalse_def split: option.splits)

lemma ready_pending:
  "pending g \<Longrightarrow>
   isGitRepositoryReady nn (Inr g) (g0, w) = ((False, None), (g, logGets nn 1 w))"
  by (auto simp: pending_def readyStatus_def isGitRepositoryReady_def logGets_def logEvent_def
      split: option.splits)

lemma ready_error:
  "isGitRepositoryReady nn (Inl err) (g0, w) = ((False, Some err), (g0, logGets nn 1 w))"
  by (simp add: isGitRepositoryReady_def logGets_def logEvent_def)

lemma logGets_logGets: "logGets nn a (logGets nn b w) = logGets nn (b + a) w"
  by (simp add: logGets_def replicate_add)

lemma poll_pending_prefix:
  "\<forall>obs \<in> set pre. pendingObs obs \<Longrightarrow>
   PollImmediate (isGitRepositoryReady nn) (pre @ rest) (g, w) =
   PollImmediate (isGitRepositoryReady nn) rest (lastRead pre g, logGets nn (length pre) w)"
proof (induction pre arbitrary: g w)
  case Nil
  show ?case by (simp add: lastRead_def logGets_def)
next
  case (Cons obs pre)
  from Cons.prems obtain g1 where obs: "obs = Inr g1" and p: "pending g1"
    by (cases obs) (auto simp: pendingObs_def)
  from Cons.prems have rest: "\<forall>obs \<in> set pre. pendingObs obs" by simp
  have "PollImmediate (isGitRepositoryReady nn) ((obs # pre) @ rest) (g, w) =
        PollImmediate (isGitRepositoryReady nn) (pre @ rest) (g1, logGets nn 1 w)"
    using ready_pending [OF p, of nn g w] obs by simp
  also have "\<dots> = PollImmediate (isGitRepositoryReady nn) rest
                     (lastRead pre g1, logGets nn (length pre) (logGets nn 1 w))"
    by (rule Cons.IH [OF rest])
  finally show ?case by (simp add: obs lastRead_def logGets_logGets)
qed

lemma readyStatus_example [simp]:
  "readyStatus (exampleObject [] a) = None"
  "readyStatus (exampleObject [mkCondition s m] a) = Some (s, m)"
  by (simp_all add: readyStatus_def exampleObject_def FindStatusCondition_def mkCondition_def)

text \<open>
  The steps of the poller. One read of the object decides one step: a Ready condition
  with status True ends the wait with success, one with status False ends it with the
  error that \<^verbatim>\<open>fmt.Errorf\<close> makes of the condition's message, used as the format,
  and an absent condition or the status Unknown leaves the poller pending, so that the
  loop goes on to the next read. When every read before the deadline is pending the
  outcome is \<open>ErrWaitTimeout\<close>, which is no condition error. On the reads absent,
  absent, True the poller is still pending after two reads and returns success on the
  third, after exactly three reads; on absent, False it stops after two.
\<close>

lemma poller_steps:
  "(readyStatus gt = Some (ConditionTrue, mt) \<longrightarrow>
      fst (isGitRepositoryReady nn (Inr gt) (gi, w)) = (True, None)) \<and>
   (readyStatus gf = Some (ConditionFalse, m) \<longrightarrow>
      fst (isGitRepositoryReady nn (Inr gf) (gi, w)) = (False, Some (ErrCondition (doPrintf m)))) \<and>
   (readyStatus gp = None \<or> readyStatus gp = Some (ConditionUnknown, mp) \<longrightarrow>
      fst (isGitRepositoryReady nn (Inr gp) (gi, w)) = (False, None) \<and>
      PollImmediate (isGitRepositoryReady nn) (Inr gp # rest) (gi, w) =
        PollImmediate (isGitRepositoryReady nn) rest (gp, logGets nn 1 w)) \<and>
   ((\<forall>obs \<in> set obss. pendingObs obs) \<longrightarrow>
      fst (PollImmediate (isGitRepositoryReady nn) obss (gi, w)) = Some ErrWaitTimeout \<and>
      ErrWaitTimeout \<noteq> ErrCondition t) \<and>
   (readyStatus ga = None \<and> readyStatus gb = None \<and> readyStatus r = Some (ConditionTrue, m) \<longrightarrow>
      PollImmediate (isGitRepositoryReady nn) [Inr ga, Inr gb] (gi, w) =
        (Some ErrWaitTimeout, (gb, logGets nn 2 w)) \<and>
      PollImmediate (isGitRepositoryReady nn) ([Inr ga, Inr gb, Inr r] @ later) (gi, w) =
        (None, (r, logGets nn 3 w))) \<and>
   (readyStatus ga = None \<and> readyStatus f = Some (ConditionFalse, m) \<longrightarrow>
      PollImmediate (isGitRepositoryReady nn) ([Inr ga, Inr f] @ later) (gi, w) =
        (Some (ErrCondition (doPrintf m)), (f, logGets nn 2 w)))"
proof -
  have pend: "pending x" if "readyStatus x = None \<or> readyStatus x = Some (ConditionUnknown, y)" for x y
    using that by (auto simp: pending_def ConditionUnknown_def ConditionTrue_def ConditionFalse_def)
  have c1: "readyStatus gt = Some (ConditionTrue, mt) \<longrightarrow>
      fst (isGitRepositoryReady nn (Inr gt) (gi, w)) = (True, None)"
    by (simp add: ready_True)
  have c2: "readyStatus gf = Some (ConditionFalse, m) \<longrightarrow>
      fst (isGitRepositoryReady nn (Inr gf) (gi, w)) = (False, Some (ErrCondition (doPrintf m)))"
    by (simp add: ready_False)
  have c3: "readyStatus gp = None \<or> readyStatus gp = Some (ConditionUnknown, mp) \<longrightarrow>
      fst (isGitRepositoryReady nn (Inr gp) (gi, w)) = (False, None) \<and>
      PollImmediate (isGitRepositoryReady nn) (Inr gp # rest) (gi, w) =
        PollImmediate (isGitRepositoryReady nn) rest (gp, logGets nn 1 w)"
    using pend [of gp mp] by (auto simp: ready_pending)
  have c4: "(\<forall>obs \<in> set obss. pendingObs obs) \<longrightarrow>
      fst (PollImmediate (isGitRepositoryReady nn) obss (gi, w)) = Some ErrWaitTimeout \<and>
      ErrWaitTimeout \<noteq> ErrCondition t"
    using poll_pending_prefix [of obss nn "[]" gi w] by simp
  have c5: "readyStatus ga = None \<and> readyStatus gb = None \<and> readyStatus r = Some (ConditionTrue, m) \<longrightarrow>
      PollImmediate (isGitRepositoryReady nn) [Inr ga, Inr gb] (gi, w) =
        (Some ErrWaitTimeout, (gb, logGets nn 2 w)) \<and>
      PollImmediate (isGitRepositoryReady nn) ([Inr ga, Inr gb, Inr r] @ later) (gi, w) =
        (None, (r, logGets nn 3 w))"
  proof (intro impI, elim conjE)
    assume a: "readyStatus ga = None" "readyStatus gb = None"
      and r: "readyStatus r = Some (ConditionTrue, m)"
    have p: "\<forall>obs \<in> set [Inr ga, Inr gb]. pendingObs obs"
      using a pend [of _ "[]"] by (simp add: pendingObs_def)
    have l: "lastRead [Inr ga, Inr gb] gi = gb" by (simp add: lastRead_def)
    have t: "PollImmediate (isGitRepositoryReady nn) [Inr ga, Inr gb] (gi, w) =
        (Some ErrWaitTimeout, (gb, logGets nn 2 w))"
      using poll_pending_prefix [OF p, of nn "[]" gi w] l by (simp add: numeral_2_eq_2)
    have "PollImmediate (isGitRepositoryReady nn) ([Inr ga, Inr gb] @ (Inr r # later)) (gi, w) =
        PollImmediate (isGitRepositoryReady nn) (Inr r # later) (gb, logGets nn 2 w)"
      using poll_pending_prefix [OF p, of nn "Inr r # later" gi w] l by (simp add: numeral_2_eq_2)
    then have "PollImmediate (isGitRepositoryReady nn) ([Inr ga, Inr gb, Inr r] @ later) (gi, w) =
        (None, (r, logGets nn 3 w))"
      by (simp add: ready_True [OF r] logGets_logGets numeral_2_eq_2 numeral_3_eq_3)
    with t show "PollImmediate (isGitRepositoryReady nn) [Inr ga, Inr gb] (gi, w) =
        (Some ErrWaitTimeout, (gb, logGets nn 2 w)) \<and>
      PollImmediate (isGitRepositoryReady nn) ([Inr ga, Inr gb, Inr r] @ later) (gi, w) =
        (None, (r, logGets nn 3 w))" by simp
  qed
  have c6: "readyStatus ga = None \<and> readyStatus f = Some (ConditionFalse, m) \<longrightarrow>
      PollImmediate (isGitRepositoryReady nn) ([Inr ga, Inr f] @ later) (gi, w) =
        (Some (ErrCondition (doPrintf m)), (f, logGets nn 2 w))"
  proof (intro impI, elim conjE)
    assume a: "readyStatus ga = None" and f: "readyStatus f = Some (ConditionFalse, m)"
    have p: "\<forall>obs \<in> set [Inr ga]. pendingObs obs"
      using a pend [of _ "[]"] by (simp add: pendingObs_def)
    have "PollImmediate (isGitRepositoryReady nn) ([Inr ga] @ (Inr f # later)) (gi, w) =
        PollImmediate (isGitRepositoryReady nn) (Inr f # later) (ga, logGets nn 1 w)"
      using poll_pending_prefix [OF p, of nn "Inr f # later" gi w] by (simp add: lastRead_def)
    then show "PollImmediate (isGitRepositoryReady nn) ([Inr ga, Inr f] @ later) (gi, w) =
        (Some (ErrCondition (doPrintf m)), (f, logGets nn 2 w))"
      by (simp add: ready_False [OF f] logGets_logGets numeral_2_eq_2)
  qed
  from c1 c2 c3 c4 c5 c6 show ?thesis by blast
qed

lemma poller_steps_example:
  "readyStatus (exampleObject [mkCondition ConditionTrue ''ok''] (Some exampleArtifact)) = Some (ConditionTrue, ''ok'') \<and>
   readyStatus (exampleObject [mkCondition ConditionFalse ''auth failed''] None) = Some (ConditionFalse, ''auth failed'') \<and>
   readyStatus (exampleObject [] None) = None \<and>
   pendingObs (Inr (exampleObject [] None)) \<and>
   pendingObs (Inr (exampleObject [mkCondition ConditionUnknown ''wait''] None)) \<and>
   PollImmediate (isGitRepositoryReady (''flux-system'', ''podinfo''))
      [Inr (exampleObject [] None), Inr (exampleObject [] None),
       Inr (exampleObject [mkCondition ConditionTrue ''ok''] (Some exampleArtifact))]
      (exampleObject [] None, emptyWorld) =
     (None, (exampleObject [mkCondition ConditionTrue ''ok''] (Some exampleArtifact),
             logGets (''flux-system'', ''podinfo'') 3 emptyWorld)) \<and>
   PollImmediate (isGitRepositoryReady (''flux-system'', ''podinfo''))
      [Inr (exampleObject [] None), Inr (exampleObject [mkCondition ConditionFalse ''auth failed''] None)]
      (exampleObject [] None, emptyWorld) =
     (Some (ErrCondition ''auth failed''),
      (exampleObject [mkCondition ConditionFalse ''auth failed''] None,
       logGets (''flux-system'', ''podinfo'') 2 emptyWorld)) \<and>
   fst (PollImmediate (isGitRepositoryReady (''flux-system'', ''podinfo''))
      [Inr (exampleObject [] None), Inr (exampleObject [mkCondition ConditionUnknown ''wait''] None)]
      (exampleObject [] None, emptyWorld)) = Some ErrWaitTimeout"
proof -
  have p: "\<forall>obs \<in> set [Inr (exampleObject [] None),
             Inr (exampleObject [mkCondition ConditionUnknown ''wait''] None)]. pendingObs obs"
    by (simp add: pendingObs_def pending_def ConditionUnknown_def ConditionTrue_def
        ConditionFalse_def)
  have d: "doPrintf ''auth failed'' = ''auth failed''" by (simp add: doPrintf_no_percent)
  show ?thesis
    using p d
      poller_steps [where gt = "exampleObject [mkCondition ConditionTrue ''ok''] (Some exampleArtifact)"
        and mt = "''ok''" and gf = "exampleObject [mkCondition ConditionFalse ''auth failed''] None"
        and m = "''auth failed''" and gp = "exampleObject [] None"
        and obss = "[Inr (exampleObject [] None), Inr (exampleObject [mkCondition ConditionUnknown ''wait''] None)]"
        and ga = "exampleObject [] None" and gb = "exampleObject [] None"
        and f = "exampleObject [mkCondition ConditionFalse ''auth failed''] None"
        and later = "[]" and nn = "(''flux-system'', ''podinfo'')"
        and gi = "exampleObject [] None" and w = emptyWorld]
      poller_steps [where r = "exampleObject [mkCondition ConditionTrue ''ok''] (Some exampleArtifact)"
        and m = "''ok''"
        and ga = "exampleObject [] None" and gb = "exampleObject [] None"
        and later = "[]" and nn = "(''flux-system'', ''podinfo'')"
        and gi = "exampleObject [] None" and w = emptyWorld]
    by simp
qed

lemma directive_example:
  "directive ''20repo: authentication required'' =
     (''%!r(MISSING)'', ''epo: authentication required'')"
  by (simp add: directive_def argNumber_def widthStep_def precStep_def isFlag_def isDigit_def
      tooLarge_def digitVal_def decodeRune_def)

lemma urlMessage_formatted:
  "doPrintf urlMessage =
     ''unable to clone https://example.com/my%!r(MISSING)epo: authentication required''"
  unfolding urlMessage_def by (simp add: directive_example doPrintf_no_percent)

text \<open>
  Claim C2, at an input where the code departs from it. On the reads absent, False the
  poller stops after two reads with a condition error, as the claim says, but the error
  does not carry the condition's message: the message is the format string of
  \<^verbatim>\<open>fmt.Errorf\<close>, and for the message that holds the address
  \<^verbatim>\<open>https://example.com/my%20repo\<close> the error text is another string. The other
  outcomes of the claim are those of \<open>poller_steps\<close>.
\<close>

theorem poller_failed_message_as_format:
  "PollImmediate (isGitRepositoryReady podinfo)
     [Inr (exampleObject [] None),
      Inr (exampleObject [mkCondition ConditionFalse urlMessage] None)]
     (exampleObject [] None, emptyWorld) =
     (Some (ErrCondition
        ''unable to clone https://example.com/my%!r(MISSING)epo: authentication required''),
      (exampleObject [mkCondition ConditionFalse urlMessage] None,
       logGets podinfo 2 emptyWorld)) \<and>
   ErrCondition
     ''unable to clone https://example.com/my%!r(MISSING)epo: authentication required'' \<noteq>
   ErrCondition urlMessage"
proof -
  let ?absent = "exampleObject [] None"
  let ?failed = "exampleObject [mkCondition ConditionFalse urlMessage] None"
  have p: "\<forall>obs \<in> set [Inr ?absent]. pendingObs obs"
    by (simp add: pendingObs_def pending_def)
  have f: "readyStatus ?failed = Some (ConditionFalse, urlMessage)" by simp
  have "PollImmediate (isGitRepositoryReady podinfo) ([Inr ?absent] @ [Inr ?failed])
          (?absent, emptyWorld) =
        PollImmediate (isGitRepositoryReady podinfo) [Inr ?failed]
          (?absent, logGets podinfo 1 emptyWorld)"
    using poll_pending_prefix [OF p, of podinfo "[Inr ?failed]" ?absent emptyWorld]
    by (simp add: lastRead_def)
  then have a: "PollImmediate (isGitRepositoryReady podinfo) [Inr ?absent, Inr ?failed]
          (?absent, emptyWorld) =
     (Some (ErrCondition
        ''unable to clone https://example.com/my%!r(MISSING)epo: authentication required''),
      (?failed, logGets podinfo 2 emptyWorld))"
    by (simp add: ready_False [OF f] urlMessage_formatted logGets_logGets numeral_2_eq_2)
  have b: "ErrCondition
     ''unable to clone https://example.com/my%!r(MISSING)epo: authentication required'' \<noteq>
   ErrCondition urlMessage"
    by (simp add: urlMessage_def)
  show ?thesis by (rule conjI [OF a b])
qed

lemma ready_cases:
  "isGitRepositoryReady nn obs (g, w) =
     (case obs of
        Inl err \<Rightarrow> ((False, Some err), (g, logGets nn 1 w))
      | Inr g1 \<Rightarrow>
          (case readyStatus g1 of
             None \<Rightarrow> ((False, None), (g1, logGets nn 1 w))
           | Some (s, m) \<Rightarrow>
               if s = ConditionTrue then ((True, None), (g1, logGets nn 1 w))
               else if s = ConditionFalse
                 then ((False, Some (ErrCondition (doPrintf m))), (g1, logGets nn 1 w))
               else ((False, None), (g1, logGets nn 1 w))))"
  by (auto simp: readyStatus_def isGitRepositoryReady_def logGets_def logEvent_def
      split: option.splits sum.splits)

lemma poll_world:
  "\<exists>n. snd (snd (PollImmediate (isGitRepositoryReady nn) obss (g, w))) = logGets nn n w"
proof (induction obss arbitrary: g w)
  case Nil
  have "logGets nn 0 w = w" by (simp add: logGets_def)
  then show ?case by (metis PollImmediate.simps(1) snd_conv)
next
  case (Cons obs obss)
  have step: "\<exists>n. logGets nn n (logGets nn 1 w) = logGets nn n' w" if "n' = n0 + 1" for n' n0
    by (metis logGets_logGets that add.commute)
  show ?case
  proof (cases obs)
    case (Inl err)
    then show ?thesis by (auto simp: ready_cases intro: exI [of _ 1])
  next
    case (Inr g1)
    from Cons.IH [of g1 "logGets nn 1 w"] obtain n where
      n: "snd (snd (PollImmediate (isGitRepositoryReady nn) obss (g1, logGets nn 1 w))) =
            logGets nn (1 + n) w"
      by (auto simp: logGets_logGets)
    show ?thesis
      using Inr n
      by (auto simp: ready_cases split: option.splits intro: exI [of _ 1] exI [of _ "1 + n"])
  qed
qed

lemma poll_success:
  "PollImmediate (isGitRepositoryReady nn) obss (g, w) = (None, (g', w')) \<Longrightarrow>
   Inr g' \<in> set obss \<and> (\<exists>m. readyStatus g' = Some (ConditionTrue, m))"
proof (induction obss arbitrary: g w)
  case Nil
  then show ?case by simp
next
  case (Cons obs obss)
  show ?case
  proof (cases obs)
    case (Inl err)
    with Cons.prems show ?thesis by (simp add: ready_cases)
  next
    case (Inr g1)
    show ?thesis
    proof (cases "readyStatus g1")
      case None
      with Cons.prems Inr have
        "PollImmediate (isGitRepositoryReady nn) obss (g1, logGets nn 1 w) = (None, (g', w'))"
        by (simp add: ready_cases)
      from Cons.IH [OF this] show ?thesis by simp
    next
      case (Some sm)
      obtain s m where sm: "sm = (s, m)" by (cases sm)
      show ?thesis
      proof (cases "s = ConditionTrue")
        case True
        with Cons.prems Inr Some sm show ?thesis by (simp add: ready_cases)
      next
        case False
        note nt = this
        show ?thesis
        proof (cases "s = ConditionFalse")
          case True
          with Cons.prems Inr Some sm nt show ?thesis by (simp add: ready_cases)
        next
          case False
          with Cons.prems Inr Some sm nt have
            "PollImmediate (isGitRepositoryReady nn) obss (g1, logGets nn 1 w) = (None, (g', w'))"
            by (simp add: ready_cases)
          from Cons.IH [OF this] show ?thesis by simp
        qed
      qed
    qed
  qed
qed

lemma upsert_trace:
  "\<exists>tr. events (snd (upsertGitRepository e g w)) = events w @ tr \<and> list_all isClientEvent tr"
  by (auto simp: upsertGitRepository_def kubeClient_Get_def kubeClient_Create_def
      kubeClient_Update_def logEvent_def Let_def split: option.splits sum.splits)

lemma applyAndWait_trace:
  "\<exists>tr. events (snd (applyAndWait e g w)) = events w @ tr \<and> list_all isClientEvent tr"
proof -
  obtain nn r w1 where u: "upsertGitRepository e g w = ((nn, r), w1)"
    by (metis surj_pair)
  from upsert_trace [of e g w] u obtain tr1 where
    tr1: "events w1 = events w @ tr1" "list_all isClientEvent tr1" by auto
  show ?thesis
  proof (cases r)
    case (Some err)
    with u tr1 show ?thesis by (simp add: applyAndWait_def)
  next
    case None
    obtain r2 g2 w2 where p:
      "PollImmediate (isGitRepositoryReady nn) (env_polls e) (g, w1) = (r2, (g2, w2))"
      by (metis surj_pair)
    from poll_world [of nn "env_polls e" g w1] p obtain n where "w2 = logGets nn n w1" by auto
    then have "events w2 = events w @ (tr1 @ replicate n (EvGet nn))"
      using tr1 by (simp add: logGets_def)
    moreover have "list_all isClientEvent (tr1 @ replicate n (EvGet nn))"
      using tr1 by (auto simp: list_all_iff)
    moreover have "events (snd (applyAndWait e g w)) = events w2"
      using u None p by (simp add: applyAndWait_def split: option.splits)
    ultimately show ?thesis by metis
  qed
qed

text \<open>
  Claim C6. Whatever the three revision flags hold, the reference of the object that is
  built (and of the object with its credential reference set) has the semver range of
  the flag, the tag of the flag only when the semver range is empty, and the branch of
  the flag only when the semver range and the tag are both empty: at most one of the
  three fields is non-empty.
\<close>

theorem revision_selector_exclusive:
  "\<exists>r. Reference (Spec (newGitRepository fl name ls)) = Some r \<and>
        Reference (Spec (withSecretRef fl name withAuth (newGitRepository fl name ls))) = Some r \<and>
        SemVer r = sourceGitSemver fl \<and>
        Tag r = (if sourceGitSemver fl = [] then sourceGitTag fl else []) \<and>
        Branch r = (if sourceGitSemver fl = [] \<and> sourceGitTag fl = [] then sourceGitBranch fl else []) \<and>
        length (filter (\<lambda>x. x \<noteq> []) [SemVer r, Tag r, Branch r]) \<le> 1"
  by (simp add: newGitRepository_def withSecretRef_def emptyRef_def Let_def)

theorem revision_selector_exclusive_witness:
  "\<exists>r. Reference (Spec (newGitRepository
            (exampleFlags\<lparr>sourceGitSemver := ''>=3.2.0 <3.3.0'', sourceGitTag := ''3.2.3''\<rparr>)
            ''podinfo'' Map.empty)) = Some r \<and>
        SemVer r = ''>=3.2.0 <3.3.0'' \<and> Tag r = [] \<and> Branch r = []"
  using revision_selector_exclusive
    [of "exampleFlags\<lparr>sourceGitSemver := ''>=3.2.0 <3.3.0'', sourceGitTag := ''3.2.3''\<rparr>"
        "''podinfo''" Map.empty False]
  by (auto simp: exampleFlags_def)

text \<open>
  Claim C7, at an input where the code departs from it. The condition's message is
  passed to \<^verbatim>\<open>fmt.Errorf\<close> as the format string: for a Ready condition of status
  False whose message holds the address \<^verbatim>\<open>https://example.com/my%20repo\<close>, the
  formatter reads \<^verbatim>\<open>%20r\<close> as a directive with no operand, and the error text is not
  the message.
\<close>

theorem condition_message_as_format:
  "fst (isGitRepositoryReady (''flux-system'', ''podinfo'')
          (Inr (exampleObject [mkCondition ConditionFalse urlMessage] None))
          (exampleObject [] None, emptyWorld)) =
     (False, Some (ErrCondition
        ''unable to clone https://example.com/my%!r(MISSING)epo: authentication required'')) \<and>
   ''unable to clone https://example.com/my%!r(MISSING)epo: authentication required'' \<noteq> urlMessage"
proof -
  have "readyStatus (exampleObject [mkCondition ConditionFalse urlMessage] None) =
          Some (ConditionFalse, urlMessage)" by simp
  from ready_False [OF this] urlMessage_formatted
  have "fst (isGitRepositoryReady (''flux-system'', ''podinfo'')
          (Inr (exampleObject [mkCondition ConditionFalse urlMessage] None))
          (exampleObject [] None, emptyWorld)) =
     (False, Some (ErrCondition
        ''unable to clone https://example.com/my%!r(MISSING)epo: authentication required''))"
    by simp
  moreover have "''unable to clone https://example.com/my%!r(MISSING)epo: authentication required'' \<noteq> urlMessage"
    by (simp add: urlMessage_def)
  ultimately show ?thesis by simp
qed

lemma run_reaches_apply:
  assumes "parseInputs e fl = Inr (name, u, ls)" and "\<not> export fl"
    and "env_KubeClient e = None"
    and "configureAuth e fl name ls u (logEvent EvKubeClient w) = (Inr withAuth, w2)"
  shows "createSourceGitCmdRun e fl w =
           applyAndWait e (withSecretRef fl name withAuth (newGitRepository fl name ls)) w2"
  using assms by (simp add: createSourceGitCmdRun_def KubeClient_def Let_def)

text \<open>
  Claim C8. A read that fails makes the condition function return the read's error.
  After any number of pending reads the loop then stops at once with that same error:
  the reads that would follow are not made (one event for each pending read and one for
  the failed read), and the error is the result of the run.
\<close>

theorem read_error_propagates:
  "fst (isGitRepositoryReady nn (Inl err) (g, w)) = (False, Some err) \<and>
   (list_all pendingObs pre \<longrightarrow>
      PollImmediate (isGitRepositoryReady nn) (pre @ Inl err # rest) (g, w) =
        (Some err, (lastRead pre g, logGets nn (length pre + 1) w))) \<and>
   (list_all pendingObs pre \<and> env_polls e = pre @ Inl err # rest \<and>
    upsertGitRepository e g w = ((nn, None), w1) \<longrightarrow>
      applyAndWait e g w = (Some err, logGets nn (length pre + 1) w1)) \<and>
   (list_all pendingObs pre \<and> env_polls e = pre @ Inl err # rest \<and>
    parseInputs e fl = Inr (name, u, ls) \<and> \<not> export fl \<and> env_KubeClient e = None \<and>
    configureAuth e fl name ls u (logEvent EvKubeClient w) = (Inr withAuth, w2) \<and>
    upsertGitRepository e (withSecretRef fl name withAuth (newGitRepository fl name ls)) w2 =
      ((nn, None), w3) \<longrightarrow>
      createSourceGitCmdRun e fl w = (Some err, logGets nn (length pre + 1) w3))"
proof -
  have poll: "PollImmediate (isGitRepositoryReady nn) (pre @ Inl err # rest) (g', w') =
        (Some err, (lastRead pre g', logGets nn (length pre + 1) w'))"
    if "list_all pendingObs pre" for g' w'
  proof -
    from that have p: "\<forall>obs \<in> set pre. pendingObs obs" by (simp add: list_all_iff)
    show ?thesis
      using poll_pending_prefix [OF p, of nn "Inl err # rest" g' w']
      by (simp add: ready_error logGets_logGets)
  qed
  have app: "applyAndWait e g' w' = (Some err, logGets nn (length pre + 1) w1')"
    if "list_all pendingObs pre" "env_polls e = pre @ Inl err # rest"
      "upsertGitRepository e g' w' = ((nn, None), w1')" for g' w' w1'
    using that poll [of g' w1'] by (simp add: applyAndWait_def)
  have c1: "fst (isGitRepositoryReady nn (Inl err) (g, w)) = (False, Some err)"
    by (simp add: ready_error)
  have c4: "list_all pendingObs pre \<and> env_polls e = pre @ Inl err # rest \<and>
    parseInputs e fl = Inr (name, u, ls) \<and> \<not> export fl \<and> env_KubeClient e = None \<and>
    configureAuth e fl name ls u (logEvent EvKubeClient w) = (Inr withAuth, w2) \<and>
    upsertGitRepository e (withSecretRef fl name withAuth (newGitRepository fl name ls)) w2 =
      ((nn, None), w3) \<longrightarrow>
      createSourceGitCmdRun e fl w = (Some err, logGets nn (length pre + 1) w3)"
    using run_reaches_apply [of e fl name u ls w withAuth w2] app by auto
  from c1 poll app c4 show ?thesis by blast
qed

lemmas example_defs = exampleEnv_def exampleFlags_def httpsUrl_def sshUrl_def emptyWorld_def
  podinfo_def

lemmas call_defs = KubeClient_def generateKeyPair_def promptRun_def scanHostKey_def
  upsertSecret_def exportGit_def kubeClient_Get_def kubeClient_Create_def kubeClient_Update_def
  logEvent_def namespacedNameOf_def IsNotFound_def

lemma parseInputs_example:
  "parseInputs (exampleEnv\<lparr>env_polls := p\<rparr>) (exampleFlags\<lparr>export := x, sourceGitSecretRef := sr\<rparr>) =
     Inr (''podinfo'', httpsUrl, Map.empty)"
  by (simp add: parseInputs_def example_defs ContainsItemString_def)

lemma configureAuth_example:
  "configureAuth (exampleEnv\<lparr>env_polls := p\<rparr>) exampleFlags ''podinfo'' Map.empty httpsUrl w =
     (Inr False, w)"
  by (simp add: configureAuth_def example_defs)

lemma upsert_example:
  "upsertGitRepository (exampleEnv\<lparr>env_polls := p\<rparr>) (newGitRepository exampleFlags ''podinfo'' Map.empty)
     (logEvent EvKubeClient emptyWorld) =
   ((podinfo, None),
    \<lparr>events = [EvKubeClient, EvGet podinfo,
                EvCreate (newGitRepository exampleFlags ''podinfo'' Map.empty)],
     cluster = [podinfo \<mapsto> newGitRepository exampleFlags ''podinfo'' Map.empty]\<rparr>)"
  by (simp add: upsertGitRepository_def call_defs example_defs newGitRepository_def
      newObjectMeta_def Let_def)

text \<open>
  Claim C3. In a run that applies the object and whose polling ends with success, the
  object last read has the Ready condition True, and the run returns the error "no
  artifact was found" when that object has no artifact, success otherwise. A run that
  is not an export returns success only when one of the reads had the Ready condition
  True and an artifact.
\<close>

theorem ready_without_artifact:
  "(parseInputs e fl = Inr (name, u, ls) \<and> \<not> export fl \<and> env_KubeClient e = None \<and>
    configureAuth e fl name ls u (logEvent EvKubeClient w) = (Inr withAuth, w2) \<and>
    upsertGitRepository e (withSecretRef fl name withAuth (newGitRepository fl name ls)) w2 =
      ((nn, None), w3) \<and>
    PollImmediate (isGitRepositoryReady nn) (env_polls e)
      (withSecretRef fl name withAuth (newGitRepository fl name ls), w3) = (None, (g, w4)) \<longrightarrow>
      (\<exists>m. readyStatus g = Some (ConditionTrue, m)) \<and>
      createSourceGitCmdRun e fl w =
        (if Artifact (Status g) = None then (Some ErrNoArtifact, w4) else (None, w4))) \<and>
   (\<not> export fl \<and> fst (createSourceGitCmdRun e fl w) = None \<longrightarrow>
      (\<exists>g m. Inr g \<in> set (env_polls e) \<and> readyStatus g = Some (ConditionTrue, m) \<and>
             Artifact (Status g) \<noteq> None))"
proof -
  have c1: "parseInputs e fl = Inr (name, u, ls) \<and> \<not> export fl \<and> env_KubeClient e = None \<and>
    configureAuth e fl name ls u (logEvent EvKubeClient w) = (Inr withAuth, w2) \<and>
    upsertGitRepository e (withSecretRef fl name withAuth (newGitRepository fl name ls)) w2 =
      ((nn, None), w3) \<and>
    PollImmediate (isGitRepositoryReady nn) (env_polls e)
      (withSecretRef fl name withAuth (newGitRepository fl name ls), w3) = (None, (g, w4)) \<longrightarrow>
      (\<exists>m. readyStatus g = Some (ConditionTrue, m)) \<and>
      createSourceGitCmdRun e fl w =
        (if Artifact (Status g) = None then (Some ErrNoArtifact, w4) else (None, w4))"
    using run_reaches_apply [of e fl name u ls w withAuth w2]
      poll_success [of nn "env_polls e" "withSecretRef fl name withAuth (newGitRepository fl name ls)" w3 g w4]
    by (auto simp: applyAndWait_def)
  have app: "\<exists>g m. Inr g \<in> set (env_polls e) \<and> readyStatus g = Some (ConditionTrue, m) \<and>
             Artifact (Status g) \<noteq> None"
    if "fst (applyAndWait e obj w') = None" for obj w'
  proof -
    obtain nn' r w1 where up: "upsertGitRepository e obj w' = ((nn', r), w1)"
      by (metis surj_pair)
    obtain r2 g2 w2' where p:
      "PollImmediate (isGitRepositoryReady nn') (env_polls e) (obj, w1) = (r2, (g2, w2'))"
      by (metis surj_pair)
    from that up p have r: "r = None" "r2 = None" "Artifact (Status g2) \<noteq> None"
      by (auto simp: applyAndWait_def split: option.splits if_splits)
    from poll_success [of nn' "env_polls e" obj w1 g2 w2'] p r
    show ?thesis by auto
  qed
  have c2: "\<not> export fl \<and> fst (createSourceGitCmdRun e fl w) = None \<longrightarrow>
      (\<exists>g m. Inr g \<in> set (env_polls e) \<and> readyStatus g = Some (ConditionTrue, m) \<and>
             Artifact (Status g) \<noteq> None)"
  proof (intro impI, elim conjE)
    assume ne: "\<not> export fl" and ok: "fst (createSourceGitCmdRun e fl w) = None"
    from ne ok obtain obj w' where "fst (applyAndWait e obj w') = None"
      by (auto simp: createSourceGitCmdRun_def Let_def split: sum.splits prod.splits option.splits)
    from app [OF this] show "\<exists>g m. Inr g \<in> set (env_polls e) \<and>
        readyStatus g = Some (ConditionTrue, m) \<and> Artifact (Status g) \<noteq> None" .
  qed
  from c1 c2 show ?thesis by blast
qed

theorem ready_without_artifact_witness:
  "createSourceGitCmdRun
     (exampleEnv\<lparr>env_polls := [Inr (exampleObject [] None), Inr readyNoArtifact]\<rparr>)
     exampleFlags emptyWorld =
     (Some ErrNoArtifact,
      logGets podinfo 2
        \<lparr>events = [EvKubeClient, EvGet podinfo,
                    EvCreate (newGitRepository exampleFlags ''podinfo'' Map.empty)],
         cluster = [podinfo \<mapsto> newGitRepository exampleFlags ''podinfo'' Map.empty]\<rparr>) \<and>
   createSourceGitCmdRun
     (exampleEnv\<lparr>env_polls := [Inr (exampleObject [] None), Inr readyObject]\<rparr>)
     exampleFlags emptyWorld =
     (None,
      logGets podinfo 2
        \<lparr>events = [EvKubeClient, EvGet podinfo,
                    EvCreate (newGitRepository exampleFlags ''podinfo'' Map.empty)],
         cluster = [podinfo \<mapsto> newGitRepository exampleFlags ''podinfo'' Map.empty]\<rparr>) \<and>
   (\<exists>g m. Inr g \<in> set [Inr (exampleObject [] None), Inr readyObject] \<and>
          readyStatus g = Some (ConditionTrue, m) \<and> Artifact (Status g) \<noteq> None)"
proof -
  let ?w3 = "\<lparr>events = [EvKubeClient, EvGet podinfo,
                    EvCreate (newGitRepository exampleFlags ''podinfo'' Map.empty)],
         cluster = [podinfo \<mapsto> newGitRepository exampleFlags ''podinfo'' Map.empty]\<rparr>"
  let ?obj = "newGitRepository exampleFlags ''podinfo'' Map.empty"
  have fl: "\<not> export exampleFlags" "env_KubeClient (exampleEnv\<lparr>env_polls := p\<rparr>) = None" for p
    by (simp_all add: example_defs)
  have pi: "parseInputs (exampleEnv\<lparr>env_polls := p\<rparr>) exampleFlags =
      Inr (''podinfo'', httpsUrl, Map.empty)" for p
    using parseInputs_example [where p = p and x = False and sr = "[]"] by (simp add: exampleFlags_def)
  have ws: "withSecretRef exampleFlags ''podinfo'' False ?obj = ?obj"
    by (simp add: withSecretRef_def)
  have absent: "pendingObs (Inr (exampleObject [] None))"
    by (simp add: pendingObs_def pending_def)
  have poll: "PollImmediate (isGitRepositoryReady podinfo) [Inr (exampleObject [] None), Inr x]
      (?obj, ?w3) = (None, (x, logGets podinfo 2 ?w3))"
    if "readyStatus x = Some (ConditionTrue, m)" for x m
    using poll_pending_prefix [of "[Inr (exampleObject [] None)]" podinfo "[Inr x]" ?obj ?w3]
      absent ready_True [OF that]
    by (simp add: lastRead_def logGets_logGets numeral_2_eq_2)
  have r1: "readyStatus readyNoArtifact = Some (ConditionTrue, ''Fetched revision: master/abc'')"
    and r2: "readyStatus readyObject = Some (ConditionTrue, ''Fetched revision: master/abc'')"
    by (simp_all add: readyNoArtifact_def readyObject_def)
  have a1: "Artifact (Status readyNoArtifact) = None"
    and a2: "Artifact (Status readyObject) \<noteq> None"
    by (simp_all add: readyNoArtifact_def readyObject_def exampleObject_def)
  note t1 = ready_without_artifact
    [where e = "exampleEnv\<lparr>env_polls := [Inr (exampleObject [] None), Inr readyNoArtifact]\<rparr>"
      and fl = exampleFlags and name = "''podinfo''" and u = httpsUrl and ls = Map.empty
      and w = emptyWorld and withAuth = False and ?w2.0 = "logEvent EvKubeClient emptyWorld"
      and nn = podinfo and ?w3.0 = ?w3 and g = readyNoArtifact and ?w4.0 = "logGets podinfo 2 ?w3"]
  note t2 = ready_without_artifact
    [where e = "exampleEnv\<lparr>env_polls := [Inr (exampleObject [] None), Inr readyObject]\<rparr>"
      and fl = exampleFlags and name = "''podinfo''" and u = httpsUrl and ls = Map.empty
      and w = emptyWorld and withAuth = False and ?w2.0 = "logEvent EvKubeClient emptyWorld"
      and nn = podinfo and ?w3.0 = ?w3 and g = readyObject and ?w4.0 = "logGets podinfo 2 ?w3"]
  have c1: "createSourceGitCmdRun
     (exampleEnv\<lparr>env_polls := [Inr (exampleObject [] None), Inr readyNoArtifact]\<rparr>)
     exampleFlags emptyWorld = (Some ErrNoArtifact, logGets podinfo 2 ?w3)"
    using t1 fl pi ws configureAuth_example upsert_example poll [OF r1] a1 by simp
  have c2: "createSourceGitCmdRun
     (exampleEnv\<lparr>env_polls := [Inr (exampleObject [] None), Inr readyObject]\<rparr>)
     exampleFlags emptyWorld = (None, logGets podinfo 2 ?w3)"
    using t2 fl pi ws configureAuth_example upsert_example poll [OF r2] a2 by simp
  have c3: "\<exists>g m. Inr g \<in> set [Inr (exampleObject [] None), Inr readyObject] \<and>
          readyStatus g = Some (ConditionTrue, m) \<and> Artifact (Status g) \<noteq> None"
    using t2 fl c2 by simp
  from c1 c2 c3 show ?thesis by blast
qed

theorem read_error_propagates_witness:
  "list_all pendingObs [Inr (exampleObject [] None)] \<and>
   createSourceGitCmdRun
     (exampleEnv\<lparr>env_polls := [Inr (exampleObject [] None), Inl (ErrOther ''connection refused''),
                                  Inr readyObject]\<rparr>)
     exampleFlags emptyWorld =
     (Some (ErrOther ''connection refused''),
      logGets podinfo 2
        \<lparr>events = [EvKubeClient, EvGet podinfo,
                    EvCreate (newGitRepository exampleFlags ''podinfo'' Map.empty)],
         cluster = [podinfo \<mapsto> newGitRepository exampleFlags ''podinfo'' Map.empty]\<rparr>)"
proof -
  let ?w3 = "\<lparr>events = [EvKubeClient, EvGet podinfo,
                    EvCreate (newGitRepository exampleFlags ''podinfo'' Map.empty)],
         cluster = [podinfo \<mapsto> newGitRepository exampleFlags ''podinfo'' Map.empty]\<rparr>"
  let ?obj = "newGitRepository exampleFlags ''podinfo'' Map.empty"
  let ?e = "exampleEnv\<lparr>env_polls := [Inr (exampleObject [] None),
              Inl (ErrOther ''connection refused''), Inr readyObject]\<rparr>"
  have fl: "\<not> export exampleFlags" "env_KubeClient ?e = None"
    by (simp_all add: example_defs)
  have pi: "parseInputs ?e exampleFlags = Inr (''podinfo'', httpsUrl, Map.empty)"
    using parseInputs_example [where x = False and sr = "[]"] by (simp add: exampleFlags_def)
  have ws: "withSecretRef exampleFlags ''podinfo'' False ?obj = ?obj"
    by (simp add: withSecretRef_def)
  have absent: "list_all pendingObs [Inr (exampleObject [] None)]"
    by (simp add: pendingObs_def pending_def)
  have polls: "env_polls ?e = [Inr (exampleObject [] None)] @
      Inl (ErrOther ''connection refused'') # [Inr readyObject]" by simp
  note t = read_error_propagates
    [where e = ?e and fl = exampleFlags and name = "''podinfo''" and u = httpsUrl
      and ls = Map.empty and w = emptyWorld and withAuth = False
      and ?w2.0 = "logEvent EvKubeClient emptyWorld" and nn = podinfo and ?w3.0 = ?w3
      and pre = "[Inr (exampleObject [] None)]" and err = "ErrOther ''connection refused''"
      and rest = "[Inr readyObject]"]
  have "createSourceGitCmdRun ?e exampleFlags emptyWorld =
      (Some (ErrOther ''connection refused''), logGets podinfo 2 ?w3)"
    using t fl pi ws absent polls configureAuth_example upsert_example
    by (simp add: numeral_2_eq_2)
  with absent show ?thesis by simp
qed


section \<open>Export\<close>

text \<open>The export path returns before the cluster client is made.\<close>

text \<open>
  Claim C10. With the export flag set, a run whose inputs pass the checks does one thing:
  it hands the object to \<^verbatim>\<open>exportGit\<close>. No cluster client is made, nothing is read
  from or written to the control plane, no key pair is generated and no host is probed,
  whatever the scheme of the address; a run whose inputs fail the checks does nothing.
  The exported object has a credential reference exactly when a secret reference was
  given: without one it has none, where the path that applies the object sets the
  object's own name once credentials are configured.
\<close>

theorem export_touches_nothing:
  "(export fl \<and> parseInputs e fl = Inr (name, u, ls) \<longrightarrow>
      createSourceGitCmdRun e fl w =
        (env_exportGit e (exported fl name ls), logEvent (EvExportGit (exported fl name ls)) w) \<and>
      trace e fl w = [EvExportGit (exported fl name ls)] \<and>
      SecretRef (Spec (exported fl name ls)) =
        (if sourceGitSecretRef fl \<noteq> [] then Some (sourceGitSecretRef fl) else None)) \<and>
   (export fl \<and> parseInputs e fl = Inl err \<longrightarrow>
      createSourceGitCmdRun e fl w = (Some err, w) \<and> trace e fl w = []) \<and>
   (export fl \<longrightarrow>
      cluster (snd (createSourceGitCmdRun e fl w)) = cluster w \<and>
      list_all (\<lambda>ev. \<exists>g. ev = EvExportGit g) (trace e fl w)) \<and>
   (export fl \<and> parseInputs e fl = Inr (name, u, ls) \<and> sourceGitSecretRef fl = [] \<longrightarrow>
      SecretRef (Spec (exported fl name ls)) = None \<and>
      SecretRef (Spec (withSecretRef fl name True (newGitRepository fl name ls))) = Some name)"
proof -
  have c1: "export fl \<and> parseInputs e fl = Inr (name, u, ls) \<longrightarrow>
      createSourceGitCmdRun e fl w =
        (env_exportGit e (exported fl name ls), logEvent (EvExportGit (exported fl name ls)) w) \<and>
      trace e fl w = [EvExportGit (exported fl name ls)] \<and>
      SecretRef (Spec (exported fl name ls)) =
        (if sourceGitSecretRef fl \<noteq> [] then Some (sourceGitSecretRef fl) else None)"
    by (simp add: createSourceGitCmdRun_def trace_def exported_def exportGit_def logEvent_def
        newGitRepository_def Let_def)
  have c2: "export fl \<and> parseInputs e fl = Inl err \<longrightarrow>
      createSourceGitCmdRun e fl w = (Some err, w) \<and> trace e fl w = []"
    by (simp add: createSourceGitCmdRun_def trace_def)
  have c3: "export fl \<longrightarrow>
      cluster (snd (createSourceGitCmdRun e fl w)) = cluster w \<and>
      list_all (\<lambda>ev. \<exists>g. ev = EvExportGit g) (trace e fl w)"
  proof (cases "parseInputs e fl")
    case (Inl a)
    then show ?thesis by (simp add: createSourceGitCmdRun_def trace_def)
  next
    case (Inr b)
    obtain n' u' ls' where "b = (n', u', ls')" by (cases b) auto
    with Inr show ?thesis
      by (simp add: createSourceGitCmdRun_def trace_def exportGit_def logEvent_def Let_def)
  qed
  have c4: "export fl \<and> parseInputs e fl = Inr (name, u, ls) \<and> sourceGitSecretRef fl = [] \<longrightarrow>
      SecretRef (Spec (exported fl name ls)) = None \<and>
      SecretRef (Spec (withSecretRef fl name True (newGitRepository fl name ls))) = Some name"
    by (simp add: exported_def withSecretRef_def newGitRepository_def)
  from c1 c2 c3 c4 show ?thesis by blast
qed

theorem export_touches_nothing_witness:
  "export (exampleFlags\<lparr>export := True, sourceGitSecretRef := []\<rparr>) \<and>
   parseInputs (exampleEnv\<lparr>env_Parse := \<lambda>s. Inr sshUrl\<rparr>)
     (exampleFlags\<lparr>export := True, sourceGitSecretRef := []\<rparr>) = Inr (''podinfo'', sshUrl, Map.empty) \<and>
   trace (exampleEnv\<lparr>env_Parse := \<lambda>s. Inr sshUrl\<rparr>)
     (exampleFlags\<lparr>export := True, sourceGitSecretRef := []\<rparr>) emptyWorld =
     [EvExportGit (newGitRepository (exampleFlags\<lparr>export := True, sourceGitSecretRef := []\<rparr>)
                     ''podinfo'' Map.empty)] \<and>
   SecretRef (Spec (newGitRepository (exampleFlags\<lparr>export := True, sourceGitSecretRef := []\<rparr>)
                     ''podinfo'' Map.empty)) = None \<and>
   cluster (snd (createSourceGitCmdRun (exampleEnv\<lparr>env_Parse := \<lambda>s. Inr sshUrl\<rparr>)
     (exampleFlags\<lparr>export := True, sourceGitSecretRef := []\<rparr>) emptyWorld)) = Map.empty \<and>
   parseInputs exampleEnv (exampleFlags\<lparr>export := True, args := []\<rparr>) = Inl ErrNameRequired \<and>
   createSourceGitCmdRun exampleEnv (exampleFlags\<lparr>export := True, args := []\<rparr>) emptyWorld =
     (Some ErrNameRequired, emptyWorld)"
proof -
  let ?e = "exampleEnv\<lparr>env_Parse := \<lambda>s. Inr sshUrl\<rparr>"
  let ?fl = "exampleFlags\<lparr>export := True, sourceGitSecretRef := []\<rparr>"
  have x: "export ?fl" "sourceGitSecretRef ?fl = []" by simp_all
  have pi: "parseInputs ?e ?fl = Inr (''podinfo'', sshUrl, Map.empty)"
    by (simp add: parseInputs_def example_defs ContainsItemString_def)
  have ex: "exported ?fl ''podinfo'' Map.empty = newGitRepository ?fl ''podinfo'' Map.empty"
    by (simp add: exported_def)
  have x2: "export (exampleFlags\<lparr>export := True, args := []\<rparr>)" by simp
  have pi2: "parseInputs exampleEnv (exampleFlags\<lparr>export := True, args := []\<rparr>) = Inl ErrNameRequired"
    by (simp add: parseInputs_def example_defs)
  note t1 = export_touches_nothing [where fl = ?fl and e = ?e and name = "''podinfo''"
      and u = sshUrl and ls = Map.empty and w = emptyWorld]
  note t2 = export_touches_nothing [where fl = "exampleFlags\<lparr>export := True, args := []\<rparr>"
      and e = exampleEnv and err = ErrNameRequired and w = emptyWorld]
  have a: "trace ?e ?fl emptyWorld = [EvExportGit (newGitRepository ?fl ''podinfo'' Map.empty)]"
    and b: "SecretRef (Spec (newGitRepository ?fl ''podinfo'' Map.empty)) = None"
    and c: "cluster (snd (createSourceGitCmdRun ?e ?fl emptyWorld)) = Map.empty"
    using t1 x pi ex by (simp_all add: emptyWorld_def logEvent_def)
  have d: "createSourceGitCmdRun exampleEnv (exampleFlags\<lparr>export := True, args := []\<rparr>) emptyWorld =
     (Some ErrNameRequired, emptyWorld)"
    using t2 x2 pi2 by simp
  from x pi a b c pi2 d show ?thesis by simp
qed

section \<open>Credentials\<close>

text \<open>
  The events of the preparation of the credentials, case by case, and the events of a
  whole run: the making of the client, the events of the credentials, then calls of the
  client only.
\<close>

lemma authTrace_eq:
  "authTrace e fl name ls u w =
     (if sourceGitSecretRef fl \<noteq> [] then []
      else if Scheme u = ''ssh'' then
        (case env_generateKeyPair e (sourceGitKeyAlgorithm fl) (sourceGitRSABits fl)
                (sourceGitECDSACurve fl) of
           Inl err \<Rightarrow> [keyPairEvent fl]
         | Inr pair \<Rightarrow>
             (case env_promptRun e of
                Some err \<Rightarrow> [keyPairEvent fl, EvPrompt]
              | None \<Rightarrow>
                  (case env_scanHostKey e u of
                     Inl err \<Rightarrow> [keyPairEvent fl, EvPrompt, EvScanHostKey u]
                   | Inr hostKey \<Rightarrow>
                       [keyPairEvent fl, EvPrompt, EvScanHostKey u,
                        EvUpsertSecret (sshSecret fl name ls pair hostKey)])))
      else if sourceGitUsername fl \<noteq> [] \<and> sourceGitPassword fl \<noteq> []
        then [EvUpsertSecret (basicAuthSecret fl name ls)]
      else [])"
  by (simp add: authTrace_def configureAuth_def generateKeyPair_def promptRun_def
      scanHostKey_def upsertSecret_def logEvent_def keyPairEvent_def
      split: sum.splits option.splits)

lemma configureAuth_events:
  "events (snd (configureAuth e fl name ls u w)) = events w @ authTrace e fl name ls u w"
  by (simp add: authTrace_def configureAuth_def generateKeyPair_def promptRun_def
      scanHostKey_def upsertSecret_def logEvent_def
      split: sum.splits option.splits)

lemma authTrace_world: "authTrace e fl name ls u w = authTrace e fl name ls u w'"
  by (simp add: authTrace_eq)

lemma run_trace:
  assumes "parseInputs e fl = Inr (name, u, ls)" and "\<not> export fl"
  shows "\<exists>tr. trace e fl w =
           (if env_KubeClient e = None then EvKubeClient # authTrace e fl name ls u w @ tr
            else [EvKubeClient]) \<and>
         list_all isClientEvent tr"
proof (cases "env_KubeClient e")
  case (Some err)
  with assms have "trace e fl w = [EvKubeClient]"
    by (simp add: trace_def createSourceGitCmdRun_def KubeClient_def logEvent_def Let_def)
  with Some show ?thesis by (auto intro: exI [of _ "[]"])
next
  case None
  let ?w1 = "logEvent EvKubeClient w"
  obtain r w2 where c: "configureAuth e fl name ls u ?w1 = (r, w2)" by (metis surj_pair)
  have ev: "events w2 = events w @ EvKubeClient # authTrace e fl name ls u w"
    using configureAuth_events [of e fl name ls u ?w1] c authTrace_world [of e fl name ls u ?w1 w]
    by (simp add: logEvent_def)
  show ?thesis
  proof (cases r)
    case (Inl err)
    with assms None c ev have "trace e fl w = EvKubeClient # authTrace e fl name ls u w @ []"
      by (simp add: trace_def createSourceGitCmdRun_def KubeClient_def Let_def)
    with None show ?thesis by (auto intro: exI [of _ "[]"])
  next
    case (Inr withAuth)
    from applyAndWait_trace [of e "withSecretRef fl name withAuth (newGitRepository fl name ls)" w2]
    obtain tr where tr: "events (snd (applyAndWait e
          (withSecretRef fl name withAuth (newGitRepository fl name ls)) w2)) = events w2 @ tr"
      "list_all isClientEvent tr" by auto
    from assms None c Inr have "createSourceGitCmdRun e fl w =
        applyAndWait e (withSecretRef fl name withAuth (newGitRepository fl name ls)) w2"
      by (simp add: run_reaches_apply)
    with tr ev None show ?thesis by (simp add: trace_def)
  qed
qed

lemma trace_no_secret:
  assumes "parseInputs e fl = Inl err \<or> export fl"
  shows "EvUpsertSecret s \<notin> set (trace e fl w)"
proof (cases "parseInputs e fl")
  case (Inl a)
  then show ?thesis by (simp add: trace_def createSourceGitCmdRun_def)
next
  case (Inr b)
  obtain n' u' ls' where "b = (n', u', ls')" by (cases b) auto
  with Inr assms show ?thesis
    by (simp add: createSourceGitCmdRun_def trace_def exportGit_def logEvent_def Let_def)
qed

lemma client_not_secret: "list_all isClientEvent tr \<Longrightarrow> EvUpsertSecret s \<notin> set tr"
  by (auto simp: list_all_iff)

lemma secret_in_trace:
  assumes "parseInputs e fl = Inr (name, u, ls)"
    and "EvUpsertSecret s \<in> set (trace e fl w)"
  shows "\<not> export fl \<and> env_KubeClient e = None \<and>
         EvUpsertSecret s \<in> set (authTrace e fl name ls u w) \<and>
         (\<exists>tr. trace e fl w = EvKubeClient # authTrace e fl name ls u w @ tr \<and>
               list_all isClientEvent tr)"
proof -
  from assms trace_no_secret [of e fl _ s w] have ne: "\<not> export fl" by blast
  from run_trace [OF assms(1) ne, of w] obtain tr where
    tr: "trace e fl w =
           (if env_KubeClient e = None then EvKubeClient # authTrace e fl name ls u w @ tr
            else [EvKubeClient])" "list_all isClientEvent tr" by blast
  from tr assms(2) have k: "env_KubeClient e = None" by (auto split: if_splits)
  from tr k assms(2) client_not_secret [OF tr(2), of s]
  have "EvUpsertSecret s \<in> set (authTrace e fl name ls u w)" by auto
  with ne k tr show ?thesis by auto
qed

lemma dom_sshSecret:
  "dom (StringData (sshSecret fl name ls pair hostKey)) =
     {''identity'', ''identity.pub'', ''known_hosts''}"
  by (auto simp: sshSecret_def)

lemma dom_basicAuthSecret:
  "dom (StringData (basicAuthSecret fl name ls)) = {''username'', ''password''}"
  by (auto simp: basicAuthSecret_def)

text \<open>
  Claim C5. In a run on an address of scheme ssh with no secret reference, a secret is
  published only after the key pair was generated, the prompt was confirmed and the
  host key was collected, all three with success and in that order, and the secret is
  the SSH secret made of that key pair and that host key. In every run, a secret that is
  published has the keys identity, identity.pub and known_hosts, or the keys username
  and password, and no others.
\<close>

theorem secrets_after_key_and_host:
  "(parseInputs e fl = Inr (name, u, ls) \<and> Scheme u = ''ssh'' \<and> sourceGitSecretRef fl = [] \<and>
    EvUpsertSecret s \<in> set (trace e fl w) \<longrightarrow>
      (\<exists>pair hostKey tr.
         env_generateKeyPair e (sourceGitKeyAlgorithm fl) (sourceGitRSABits fl)
           (sourceGitECDSACurve fl) = Inr pair \<and>
         env_promptRun e = None \<and>
         env_scanHostKey e u = Inr hostKey \<and>
         s = sshSecret fl name ls pair hostKey \<and>
         trace e fl w =
           [EvKubeClient, keyPairEvent fl, EvPrompt, EvScanHostKey u, EvUpsertSecret s] @ tr \<and>
         list_all isClientEvent tr)) \<and>
   (EvUpsertSecret s \<in> set (trace e fl w) \<longrightarrow>
      dom (StringData s) = {''identity'', ''identity.pub'', ''known_hosts''} \<or>
      dom (StringData s) = {''username'', ''password''})"
proof -
  have c1: "parseInputs e fl = Inr (name, u, ls) \<and> Scheme u = ''ssh'' \<and> sourceGitSecretRef fl = [] \<and>
    EvUpsertSecret s \<in> set (trace e fl w) \<longrightarrow>
      (\<exists>pair hostKey tr.
         env_generateKeyPair e (sourceGitKeyAlgorithm fl) (sourceGitRSABits fl)
           (sourceGitECDSACurve fl) = Inr pair \<and>
         env_promptRun e = None \<and>
         env_scanHostKey e u = Inr hostKey \<and>
         s = sshSecret fl name ls pair hostKey \<and>
         trace e fl w =
           [EvKubeClient, keyPairEvent fl, EvPrompt, EvScanHostKey u, EvUpsertSecret s] @ tr \<and>
         list_all isClientEvent tr)"
  proof (intro impI, elim conjE)
    assume pi: "parseInputs e fl = Inr (name, u, ls)" and ssh: "Scheme u = ''ssh''"
      and nr: "sourceGitSecretRef fl = []" and mem: "EvUpsertSecret s \<in> set (trace e fl w)"
    from secret_in_trace [OF pi mem] obtain tr where
      a: "EvUpsertSecret s \<in> set (authTrace e fl name ls u w)"
      and t: "trace e fl w = EvKubeClient # authTrace e fl name ls u w @ tr"
      and c: "list_all isClientEvent tr" by blast
    from a ssh nr obtain pair hostKey where
      k: "env_generateKeyPair e (sourceGitKeyAlgorithm fl) (sourceGitRSABits fl)
           (sourceGitECDSACurve fl) = Inr pair"
      and p: "env_promptRun e = None"
      and h: "env_scanHostKey e u = Inr hostKey"
      and s: "s = sshSecret fl name ls pair hostKey"
      by (auto simp: authTrace_eq keyPairEvent_def split: sum.splits option.splits)
    from k p h ssh nr have "authTrace e fl name ls u w =
        [keyPairEvent fl, EvPrompt, EvScanHostKey u, EvUpsertSecret (sshSecret fl name ls pair hostKey)]"
      by (simp add: authTrace_eq)
    with t s have "trace e fl w =
        [EvKubeClient, keyPairEvent fl, EvPrompt, EvScanHostKey u, EvUpsertSecret s] @ tr" by simp
    with k p h s c show "\<exists>pair hostKey tr.
         env_generateKeyPair e (sourceGitKeyAlgorithm fl) (sourceGitRSABits fl)
           (sourceGitECDSACurve fl) = Inr pair \<and>
         env_promptRun e = None \<and>
         env_scanHostKey e u = Inr hostKey \<and>
         s = sshSecret fl name ls pair hostKey \<and>
         trace e fl w =
           [EvKubeClient, keyPairEvent fl, EvPrompt, EvScanHostKey u, EvUpsertSecret s] @ tr \<and>
         list_all isClientEvent tr" by blast
  qed
  have c2: "EvUpsertSecret s \<in> set (trace e fl w) \<longrightarrow>
      dom (StringData s) = {''identity'', ''identity.pub'', ''known_hosts''} \<or>
      dom (StringData s) = {''username'', ''password''}"
  proof
    assume mem: "EvUpsertSecret s \<in> set (trace e fl w)"
    show "dom (StringData s) = {''identity'', ''identity.pub'', ''known_hosts''} \<or>
      dom (StringData s) = {''username'', ''password''}"
    proof (cases "parseInputs e fl")
      case (Inl err)
      with mem trace_no_secret [of e fl err s w] show ?thesis by simp
    next
      case (Inr b)
      obtain n' u' ls' where b: "b = (n', u', ls')" by (cases b) auto
      from secret_in_trace [of e fl n' u' ls' s w] Inr b mem
      have "EvUpsertSecret s \<in> set (authTrace e fl n' ls' u' w)" by simp
      then have "(\<exists>pair hostKey. s = sshSecret fl n' ls' pair hostKey) \<or>
          s = basicAuthSecret fl n' ls'"
        by (auto simp: authTrace_eq keyPairEvent_def split: sum.splits option.splits if_splits)
      then show ?thesis using dom_sshSecret dom_basicAuthSecret by metis
    qed
  qed
  from c1 c2 show ?thesis by blast
qed

text \<open>
  Claim C1. In a run that is not an export and that reaches the preparation of the
  credentials, one strategy applies, in this order. With a secret reference: no key
  pair, no prompt, no probe and no secret, only the client's calls, and the object
  refers to the name given. Else with scheme ssh: the key pair is generated first, and
  when generation, prompt and probe succeed the SSH secret is published under the
  object's name and namespace, and the object refers to its own name. Else with a user
  name and a password: the basic-auth secret is published under the object's name, and
  the object refers to its own name. Else nothing is published and the object has no
  credential reference.
\<close>

theorem credential_strategy_precedence:
  assumes "parseInputs e fl = Inr (name, u, ls)" and "\<not> export fl"
    and "env_KubeClient e = None"
  shows
  "(sourceGitSecretRef fl \<noteq> [] \<longrightarrow>
      createSourceGitCmdRun e fl w =
        applyAndWait e (withSecretRef fl name True (newGitRepository fl name ls))
          (logEvent EvKubeClient w) \<and>
      SecretRef (Spec (withSecretRef fl name True (newGitRepository fl name ls))) =
        Some (sourceGitSecretRef fl) \<and>
      (\<exists>tr. trace e fl w = EvKubeClient # tr \<and> list_all isClientEvent tr)) \<and>
   (sourceGitSecretRef fl = [] \<and> Scheme u = ''ssh'' \<longrightarrow>
      (\<exists>tr. trace e fl w = EvKubeClient # keyPairEvent fl # tr) \<and>
      (env_generateKeyPair e (sourceGitKeyAlgorithm fl) (sourceGitRSABits fl)
         (sourceGitECDSACurve fl) = Inr pair \<and>
       env_promptRun e = None \<and> env_scanHostKey e u = Inr hostKey \<longrightarrow>
         (\<exists>tr. trace e fl w =
                 [EvKubeClient, keyPairEvent fl, EvPrompt, EvScanHostKey u,
                  EvUpsertSecret (sshSecret fl name ls pair hostKey)] @ tr \<and>
               list_all isClientEvent tr) \<and>
         Name (SecretMeta (sshSecret fl name ls pair hostKey)) = name \<and>
         Namespace (SecretMeta (sshSecret fl name ls pair hostKey)) = namespace fl \<and>
         dom (StringData (sshSecret fl name ls pair hostKey)) =
           {''identity'', ''identity.pub'', ''known_hosts''} \<and>
         (env_upsertSecret e (sshSecret fl name ls pair hostKey) = None \<longrightarrow>
            createSourceGitCmdRun e fl w =
              applyAndWait e (withSecretRef fl name True (newGitRepository fl name ls))
                (w\<lparr>events := events w @
                     [EvKubeClient, keyPairEvent fl, EvPrompt, EvScanHostKey u,
                      EvUpsertSecret (sshSecret fl name ls pair hostKey)]\<rparr>) \<and>
            SecretRef (Spec (withSecretRef fl name True (newGitRepository fl name ls))) =
              Some name))) \<and>
   (sourceGitSecretRef fl = [] \<and> Scheme u \<noteq> ''ssh'' \<and>
    sourceGitUsername fl \<noteq> [] \<and> sourceGitPassword fl \<noteq> [] \<longrightarrow>
      (\<exists>tr. trace e fl w = [EvKubeClient, EvUpsertSecret (basicAuthSecret fl name ls)] @ tr \<and>
            list_all isClientEvent tr) \<and>
      Name (SecretMeta (basicAuthSecret fl name ls)) = name \<and>
      Namespace (SecretMeta (basicAuthSecret fl name ls)) = namespace fl \<and>
      dom (StringData (basicAuthSecret fl name ls)) = {''username'', ''password''} \<and>
      (env_upsertSecret e (basicAuthSecret fl name ls) = None \<longrightarrow>
         createSourceGitCmdRun e fl w =
           applyAndWait e (withSecretRef fl name True (newGitRepository fl name ls))
             (w\<lparr>events := events w @
                  [EvKubeClient, EvUpsertSecret (basicAuthSecret fl name ls)]\<rparr>) \<and>
         SecretRef (Spec (withSecretRef fl name True (newGitRepository fl name ls))) =
           Some name)) \<and>
   (sourceGitSecretRef fl = [] \<and> Scheme u \<noteq> ''ssh'' \<and>
    (sourceGitUsername fl = [] \<or> sourceGitPassword fl = []) \<longrightarrow>
      createSourceGitCmdRun e fl w =
        applyAndWait e (newGitRepository fl name ls) (logEvent EvKubeClient w) \<and>
      SecretRef (Spec (newGitRepository fl name ls)) = None \<and>
      (\<exists>tr. trace e fl w = EvKubeClient # tr \<and> list_all isClientEvent tr))"
  (is "?C1 \<and> ?C2 \<and> ?C3 \<and> ?C4")
proof -
  from run_trace [OF assms(1,2), of w] assms(3) obtain tr0 where
    tr0: "trace e fl w = EvKubeClient # authTrace e fl name ls u w @ tr0"
      "list_all isClientEvent tr0" by auto
  note run = createSourceGitCmdRun_def KubeClient_def configureAuth_def Let_def
    withSecretRef_def generateKeyPair_def promptRun_def scanHostKey_def upsertSecret_def
    logEvent_def keyPairEvent_def
  have c1: ?C1
    apply (intro impI conjI)
    subgoal by (simp add: assms run)
    subgoal by (simp add: withSecretRef_def)
    subgoal by (simp add: tr0 authTrace_eq)
    done
  have c2: ?C2
    apply (intro impI conjI)
    subgoal by (simp add: tr0 authTrace_eq split: sum.splits option.splits)
    subgoal by (simp add: tr0 authTrace_eq)
    subgoal by (simp add: sshSecret_def newObjectMeta_def)
    subgoal by (simp add: sshSecret_def newObjectMeta_def)
    subgoal by (rule dom_sshSecret)
    subgoal by (simp add: assms run)
    subgoal by (simp add: withSecretRef_def)
    done
  have c3: ?C3
    apply (intro impI conjI)
    subgoal by (simp add: tr0 authTrace_eq)
    subgoal by (simp add: basicAuthSecret_def newObjectMeta_def)
    subgoal by (simp add: basicAuthSecret_def newObjectMeta_def)
    subgoal by (rule dom_basicAuthSecret)
    subgoal by (simp add: assms run)
    subgoal by (simp add: withSecretRef_def)
    done
  have c4: ?C4
    apply (intro impI conjI)
    subgoal by (elim conjE disjE; simp add: assms run)
    subgoal by (simp add: newGitRepository_def)
    subgoal by (elim conjE disjE; simp add: tr0 authTrace_eq)
    done
  show ?thesis by (rule conjI [OF c1 conjI [OF c2 conjI [OF c3 c4]]])
qed

lemma sshEnv_facts:
  "parseInputs sshEnv (exampleFlags\<lparr>sourceGitSecretRef := sr\<rparr>) = Inr (''podinfo'', sshUrl, Map.empty)"
  "env_KubeClient sshEnv = None"
  "env_generateKeyPair sshEnv a b c = Inr exampleKeyPair"
  "env_promptRun sshEnv = None"
  "env_scanHostKey sshEnv u = Inr ''github.com ssh-rsa BBBB''"
  "env_upsertSecret sshEnv s = None"
  by (simp_all add: sshEnv_def parseInputs_def example_defs ContainsItemString_def
      exampleKeyPair_def)

lemma exampleEnv_facts:
  "parseInputs exampleEnv (exampleFlags\<lparr>sourceGitUsername := un, sourceGitPassword := pw\<rparr>) =
     Inr (''podinfo'', httpsUrl, Map.empty)"
  "env_KubeClient exampleEnv = None"
  "env_upsertSecret exampleEnv s = None"
  by (simp_all add: parseInputs_def example_defs ContainsItemString_def)

lemma exampleFlags_facts:
  "\<not> export (exampleFlags\<lparr>sourceGitSecretRef := sr\<rparr>)"
  "\<not> export (exampleFlags\<lparr>sourceGitUsername := un, sourceGitPassword := pw\<rparr>)"
  "sourceGitSecretRef (exampleFlags\<lparr>sourceGitUsername := un, sourceGitPassword := pw\<rparr>) = []"
  "sourceGitUsername exampleFlags = []"
  by (simp_all add: exampleFlags_def)

theorem credential_strategy_precedence_witness:
  "SecretRef (Spec (withSecretRef (exampleFlags\<lparr>sourceGitSecretRef := ''my-secret''\<rparr>) ''podinfo'' True
     (newGitRepository (exampleFlags\<lparr>sourceGitSecretRef := ''my-secret''\<rparr>) ''podinfo'' Map.empty))) =
     Some ''my-secret'' \<and>
   (\<exists>tr. trace sshEnv (exampleFlags\<lparr>sourceGitSecretRef := ''my-secret''\<rparr>) emptyWorld =
           EvKubeClient # tr \<and> list_all isClientEvent tr) \<and>
   (\<exists>tr. trace sshEnv (exampleFlags\<lparr>sourceGitSecretRef := []\<rparr>) emptyWorld =
           [EvKubeClient, keyPairEvent (exampleFlags\<lparr>sourceGitSecretRef := []\<rparr>), EvPrompt,
            EvScanHostKey sshUrl,
            EvUpsertSecret (sshSecret (exampleFlags\<lparr>sourceGitSecretRef := []\<rparr>) ''podinfo'' Map.empty
              exampleKeyPair ''github.com ssh-rsa BBBB'')] @ tr \<and>
         list_all isClientEvent tr) \<and>
   SecretRef (Spec (withSecretRef (exampleFlags\<lparr>sourceGitSecretRef := []\<rparr>) ''podinfo'' True
     (newGitRepository (exampleFlags\<lparr>sourceGitSecretRef := []\<rparr>) ''podinfo'' Map.empty))) =
     Some ''podinfo'' \<and>
   (\<exists>tr. trace exampleEnv (exampleFlags\<lparr>sourceGitUsername := ''git'', sourceGitPassword := ''token''\<rparr>)
           emptyWorld =
           [EvKubeClient,
            EvUpsertSecret (basicAuthSecret
              (exampleFlags\<lparr>sourceGitUsername := ''git'', sourceGitPassword := ''token''\<rparr>)
              ''podinfo'' Map.empty)] @ tr \<and>
         list_all isClientEvent tr) \<and>
   createSourceGitCmdRun exampleEnv
     (exampleFlags\<lparr>sourceGitUsername := [], sourceGitPassword := ''token''\<rparr>) emptyWorld =
     applyAndWait exampleEnv
       (newGitRepository (exampleFlags\<lparr>sourceGitUsername := [], sourceGitPassword := ''token''\<rparr>)
          ''podinfo'' Map.empty)
       (logEvent EvKubeClient emptyWorld)"
proof -
  let ?f1 = "exampleFlags\<lparr>sourceGitSecretRef := ''my-secret''\<rparr>"
  let ?f2 = "exampleFlags\<lparr>sourceGitSecretRef := []\<rparr>"
  let ?f3 = "exampleFlags\<lparr>sourceGitUsername := ''git'', sourceGitPassword := ''token''\<rparr>"
  let ?f4 = "exampleFlags\<lparr>sourceGitUsername := [], sourceGitPassword := ''token''\<rparr>"
  have s: "Scheme sshUrl = ''ssh''" "Scheme httpsUrl \<noteq> ''ssh''"
    by (simp_all add: sshUrl_def httpsUrl_def)
  note p1 = sshEnv_facts(1) [of "''my-secret''"] and x1 = exampleFlags_facts(1) [of "''my-secret''"]
  note p2 = sshEnv_facts(1) [of "[]"] and x2 = exampleFlags_facts(1) [of "[]"]
  note p3 = exampleEnv_facts(1) [where un = "''git''" and pw = "''token''"]
    and x3 = exampleFlags_facts(2) [where un = "''git''" and pw = "''token''"]
  note p4 = exampleEnv_facts(1) [where un = "[]" and pw = "''token''"]
    and x4 = exampleFlags_facts(2) [where un = "[]" and pw = "''token''"]
  note t1 = credential_strategy_precedence [OF p1 x1 sshEnv_facts(2), where w = emptyWorld]
  note t2 = credential_strategy_precedence [OF p2 x2 sshEnv_facts(2), where w = emptyWorld
      and pair = exampleKeyPair and hostKey = "''github.com ssh-rsa BBBB''"]
  note t3 = credential_strategy_precedence [OF p3 x3 exampleEnv_facts(2), where w = emptyWorld]
  note t4 = credential_strategy_precedence [OF p4 x4 exampleEnv_facts(2), where w = emptyWorld]
  have a: "SecretRef (Spec (withSecretRef ?f1 ''podinfo'' True
       (newGitRepository ?f1 ''podinfo'' Map.empty))) = Some ''my-secret''"
    and b: "\<exists>tr. trace sshEnv ?f1 emptyWorld = EvKubeClient # tr \<and> list_all isClientEvent tr"
    using t1 by simp_all
  have c: "\<exists>tr. trace sshEnv ?f2 emptyWorld =
           [EvKubeClient, keyPairEvent ?f2, EvPrompt, EvScanHostKey sshUrl,
            EvUpsertSecret (sshSecret ?f2 ''podinfo'' Map.empty
              exampleKeyPair ''github.com ssh-rsa BBBB'')] @ tr \<and>
         list_all isClientEvent tr"
    and d: "SecretRef (Spec (withSecretRef ?f2 ''podinfo'' True
       (newGitRepository ?f2 ''podinfo'' Map.empty))) = Some ''podinfo''"
    using t2 s sshEnv_facts by simp_all
  have e: "\<exists>tr. trace exampleEnv ?f3 emptyWorld =
           [EvKubeClient, EvUpsertSecret (basicAuthSecret ?f3 ''podinfo'' Map.empty)] @ tr \<and>
         list_all isClientEvent tr"
    using t3 s exampleFlags_facts by simp
  have f: "createSourceGitCmdRun exampleEnv ?f4 emptyWorld =
     applyAndWait exampleEnv (newGitRepository ?f4 ''podinfo'' Map.empty)
       (logEvent EvKubeClient emptyWorld)"
    using t4 s exampleFlags_facts by simp
  show ?thesis by (rule conjI [OF a conjI [OF b conjI [OF c conjI [OF d conjI [OF e f]]]]])
qed

theorem secrets_after_key_and_host_witness:
  "EvUpsertSecret (sshSecret (exampleFlags\<lparr>sourceGitSecretRef := []\<rparr>) ''podinfo'' Map.empty
      exampleKeyPair ''github.com ssh-rsa BBBB'')
     \<in> set (trace sshEnv (exampleFlags\<lparr>sourceGitSecretRef := []\<rparr>) emptyWorld) \<and>
   (\<exists>pair hostKey tr.
      env_generateKeyPair sshEnv ''rsa'' 2048 ''p384'' = Inr pair \<and>
      env_scanHostKey sshEnv sshUrl = Inr hostKey \<and>
      trace sshEnv (exampleFlags\<lparr>sourceGitSecretRef := []\<rparr>) emptyWorld =
        [EvKubeClient, keyPairEvent (exampleFlags\<lparr>sourceGitSecretRef := []\<rparr>), EvPrompt,
         EvScanHostKey sshUrl,
         EvUpsertSecret (sshSecret (exampleFlags\<lparr>sourceGitSecretRef := []\<rparr>) ''podinfo'' Map.empty
           pair hostKey)] @ tr \<and>
      list_all isClientEvent tr) \<and>
   (dom (StringData (sshSecret (exampleFlags\<lparr>sourceGitSecretRef := []\<rparr>) ''podinfo'' Map.empty
      exampleKeyPair ''github.com ssh-rsa BBBB'')) = {''identity'', ''identity.pub'', ''known_hosts''} \<or>
    dom (StringData (sshSecret (exampleFlags\<lparr>sourceGitSecretRef := []\<rparr>) ''podinfo'' Map.empty
      exampleKeyPair ''github.com ssh-rsa BBBB'')) = {''username'', ''password''})"
proof -
  let ?f = "exampleFlags\<lparr>sourceGitSecretRef := []\<rparr>"
  let ?s = "sshSecret ?f ''podinfo'' Map.empty exampleKeyPair ''github.com ssh-rsa BBBB''"
  have s: "Scheme sshUrl = ''ssh''" "sourceGitSecretRef ?f = []"
    "sourceGitKeyAlgorithm ?f = ''rsa''" "sourceGitRSABits ?f = 2048"
    "sourceGitECDSACurve ?f = ''p384''"
    by (simp_all add: sshUrl_def exampleFlags_def)
  note p = sshEnv_facts(1) [of "[]"] and x = exampleFlags_facts(1) [of "[]"]
  from run_trace [OF p x, of emptyWorld] sshEnv_facts(2)
  obtain tr where tr: "trace sshEnv ?f emptyWorld =
      EvKubeClient # authTrace sshEnv ?f ''podinfo'' Map.empty sshUrl emptyWorld @ tr" by auto
  have at: "authTrace sshEnv ?f ''podinfo'' Map.empty sshUrl emptyWorld =
      [keyPairEvent ?f, EvPrompt, EvScanHostKey sshUrl, EvUpsertSecret ?s]"
    by (simp add: authTrace_eq s sshEnv_facts)
  have mem: "EvUpsertSecret ?s \<in> set (trace sshEnv ?f emptyWorld)"
    by (simp add: tr at)
  note t = secrets_after_key_and_host [of sshEnv ?f "''podinfo''" sshUrl Map.empty ?s emptyWorld]
  have hyp: "parseInputs sshEnv ?f = Inr (''podinfo'', sshUrl, Map.empty) \<and>
      Scheme sshUrl = ''ssh'' \<and> sourceGitSecretRef ?f = [] \<and>
      EvUpsertSecret ?s \<in> set (trace sshEnv ?f emptyWorld)"
    using p s mem by simp
  from mp [OF conjunct1 [OF t] hyp] obtain pair hostKey tr' where
    r: "env_generateKeyPair sshEnv (sourceGitKeyAlgorithm ?f) (sourceGitRSABits ?f)
           (sourceGitECDSACurve ?f) = Inr pair"
      "env_scanHostKey sshEnv sshUrl = Inr hostKey"
      "?s = sshSecret ?f ''podinfo'' Map.empty pair hostKey"
      "trace sshEnv ?f emptyWorld =
         [EvKubeClient, keyPairEvent ?f, EvPrompt, EvScanHostKey sshUrl, EvUpsertSecret ?s] @ tr'"
      "list_all isClientEvent tr'" by blast
  from r(1) s have r1: "env_generateKeyPair sshEnv ''rsa'' 2048 ''p384'' = Inr pair" by simp
  from r(3,4) have r4: "trace sshEnv ?f emptyWorld =
        [EvKubeClient, keyPairEvent ?f, EvPrompt, EvScanHostKey sshUrl,
         EvUpsertSecret (sshSecret ?f ''podinfo'' Map.empty pair hostKey)] @ tr'" by simp
  have a: "\<exists>pair hostKey tr.
      env_generateKeyPair sshEnv ''rsa'' 2048 ''p384'' = Inr pair \<and>
      env_scanHostKey sshEnv sshUrl = Inr hostKey \<and>
      trace sshEnv ?f emptyWorld =
        [EvKubeClient, keyPairEvent ?f, EvPrompt, EvScanHostKey sshUrl,
         EvUpsertSecret (sshSecret ?f ''podinfo'' Map.empty pair hostKey)] @ tr \<and>
      list_all isClientEvent tr"
    using r1 r(2) r4 r(5) by blast
  have b: "dom (StringData ?s) = {''identity'', ''identity.pub'', ''known_hosts''} \<or>
    dom (StringData ?s) = {''username'', ''password''}"
    by (rule mp [OF conjunct2 [OF t] mem])
  show ?thesis by (rule conjI [OF mem conjI [OF a b]])
qed


section \<open>Upsert\<close>

text \<open>The three paths of \<^verbatim>\<open>upsertGitRepository\<close>, each as one equation.\<close>

lemma upsert_found:
  assumes "env_GetErr e (namespacedNameOf g) = None"
    and "cluster w (namespacedNameOf g) = Some existing"
  shows "upsertGitRepository e g w =
     (case kubeClient_Update e
             (existing\<lparr>ObjectMeta := (ObjectMeta existing)\<lparr>Labels := Labels (ObjectMeta g)\<rparr>,
                        Spec := Spec g\<rparr>)
             (logEvent (EvGet (namespacedNameOf g)) w) of
        (r, w2) \<Rightarrow> ((namespacedNameOf g, r), w2))"
  using assms
  by (simp add: upsertGitRepository_def kubeClient_Get_def namespacedNameOf_def Let_def
      split: option.splits prod.splits)

lemma upsert_missing:
  assumes "env_GetErr e (namespacedNameOf g) = None \<and> cluster w (namespacedNameOf g) = None \<or>
           env_GetErr e (namespacedNameOf g) = Some ErrNotFound"
  shows "upsertGitRepository e g w =
     (case kubeClient_Create e g (logEvent (EvGet (namespacedNameOf g)) w) of
        (r, w2) \<Rightarrow> ((namespacedNameOf g, r), w2))"
  using assms
  by (auto simp: upsertGitRepository_def kubeClient_Get_def namespacedNameOf_def Let_def
      IsNotFound_def split: option.splits prod.splits)

lemma upsert_read_error:
  assumes "env_GetErr e (namespacedNameOf g) = Some err" and "err \<noteq> ErrNotFound"
  shows "upsertGitRepository e g w =
     ((namespacedNameOf g, Some err), logEvent (EvGet (namespacedNameOf g)) w)"
  using assms
  by (simp add: upsertGitRepository_def kubeClient_Get_def namespacedNameOf_def Let_def
      IsNotFound_def)

text \<open>
  Claim C4. When the object exists, the update that is sent is the existing object with
  the labels and the spec of the desired object: its name, namespace, annotations,
  resource version, UID, generation and status are the existing object's, and the error
  of the update, if any, is returned as it is. When the object is not found, the desired
  object is created as it is, and the error of the create, if any, is returned as it is.
  Any other error of the read is returned as it is, and nothing is written.
\<close>

theorem upsert_replaces_labels_and_spec:
  "(env_GetErr e (namespacedNameOf g) = None \<and>
    cluster w (namespacedNameOf g) = Some existing \<and>
    namespacedNameOf existing = namespacedNameOf g \<longrightarrow>
      (\<exists>upd. events (snd (upsertGitRepository e g w)) =
               events w @ [EvGet (namespacedNameOf g), EvUpdate upd] \<and>
             Labels (ObjectMeta upd) = Labels (ObjectMeta g) \<and>
             Spec upd = Spec g \<and>
             Name (ObjectMeta upd) = Name (ObjectMeta existing) \<and>
             Namespace (ObjectMeta upd) = Namespace (ObjectMeta existing) \<and>
             Annotations (ObjectMeta upd) = Annotations (ObjectMeta existing) \<and>
             ResourceVersion (ObjectMeta upd) = ResourceVersion (ObjectMeta existing) \<and>
             UID (ObjectMeta upd) = UID (ObjectMeta existing) \<and>
             Generation (ObjectMeta upd) = Generation (ObjectMeta existing) \<and>
             Status upd = Status existing \<and>
             fst (upsertGitRepository e g w) = (namespacedNameOf g, env_UpdateErr e upd) \<and>
             cluster (snd (upsertGitRepository e g w)) =
               (if env_UpdateErr e upd = None then (cluster w)(namespacedNameOf g \<mapsto> upd)
                else cluster w))) \<and>
   (env_GetErr e (namespacedNameOf g) = None \<and> cluster w (namespacedNameOf g) = None \<longrightarrow>
      events (snd (upsertGitRepository e g w)) =
        events w @ [EvGet (namespacedNameOf g), EvCreate g] \<and>
      fst (upsertGitRepository e g w) = (namespacedNameOf g, env_CreateErr e g) \<and>
      cluster (snd (upsertGitRepository e g w)) =
        (if env_CreateErr e g = None then (cluster w)(namespacedNameOf g \<mapsto> g)
         else cluster w)) \<and>
   (env_GetErr e (namespacedNameOf g) = Some err \<and> err \<noteq> ErrNotFound \<longrightarrow>
      upsertGitRepository e g w =
        ((namespacedNameOf g, Some err), logEvent (EvGet (namespacedNameOf g)) w) \<and>
      cluster (snd (upsertGitRepository e g w)) = cluster w)"
  (is "?C1 \<and> ?C2 \<and> ?C3")
proof -
  have c1: ?C1
  proof (intro impI, elim conjE)
    assume a: "env_GetErr e (namespacedNameOf g) = None"
      "cluster w (namespacedNameOf g) = Some existing"
      and k: "namespacedNameOf existing = namespacedNameOf g"
    let ?upd = "existing\<lparr>ObjectMeta := (ObjectMeta existing)\<lparr>Labels := Labels (ObjectMeta g)\<rparr>,
                        Spec := Spec g\<rparr>"
    have ku: "namespacedNameOf ?upd = namespacedNameOf g"
      using k by (simp add: namespacedNameOf_def)
    have "events (snd (upsertGitRepository e g w)) =
               events w @ [EvGet (namespacedNameOf g), EvUpdate ?upd] \<and>
          fst (upsertGitRepository e g w) = (namespacedNameOf g, env_UpdateErr e ?upd) \<and>
          cluster (snd (upsertGitRepository e g w)) =
               (if env_UpdateErr e ?upd = None then (cluster w)(namespacedNameOf g \<mapsto> ?upd)
                else cluster w)"
      using a ku
      by (simp add: upsert_found [OF a] kubeClient_Update_def logEvent_def Let_def
          split: option.splits)
    then show "\<exists>upd. events (snd (upsertGitRepository e g w)) =
               events w @ [EvGet (namespacedNameOf g), EvUpdate upd] \<and>
             Labels (ObjectMeta upd) = Labels (ObjectMeta g) \<and>
             Spec upd = Spec g \<and>
             Name (ObjectMeta upd) = Name (ObjectMeta existing) \<and>
             Namespace (ObjectMeta upd) = Namespace (ObjectMeta existing) \<and>
             Annotations (ObjectMeta upd) = Annotations (ObjectMeta existing) \<and>
             ResourceVersion (ObjectMeta upd) = ResourceVersion (ObjectMeta existing) \<and>
             UID (ObjectMeta upd) = UID (ObjectMeta existing) \<and>
             Generation (ObjectMeta upd) = Generation (ObjectMeta existing) \<and>
             Status upd = Status existing \<and>
             fst (upsertGitRepository e g w) = (namespacedNameOf g, env_UpdateErr e upd) \<and>
             cluster (snd (upsertGitRepository e g w)) =
               (if env_UpdateErr e upd = None then (cluster w)(namespacedNameOf g \<mapsto> upd)
                else cluster w)"
      by (intro exI [of _ ?upd]) simp
  qed
  have c2: ?C2
  proof (intro impI, elim conjE)
    assume a: "env_GetErr e (namespacedNameOf g) = None" "cluster w (namespacedNameOf g) = None"
    have m: "env_GetErr e (namespacedNameOf g) = None \<and> cluster w (namespacedNameOf g) = None \<or>
           env_GetErr e (namespacedNameOf g) = Some ErrNotFound" using a by simp
    show "events (snd (upsertGitRepository e g w)) =
        events w @ [EvGet (namespacedNameOf g), EvCreate g] \<and>
      fst (upsertGitRepository e g w) = (namespacedNameOf g, env_CreateErr e g) \<and>
      cluster (snd (upsertGitRepository e g w)) =
        (if env_CreateErr e g = None then (cluster w)(namespacedNameOf g \<mapsto> g)
         else cluster w)"
      using a
      by (simp add: upsert_missing [OF m] kubeClient_Create_def logEvent_def Let_def
          split: option.splits)
  qed
  have c3: ?C3
    by (simp add: upsert_read_error logEvent_def)
  show ?thesis by (rule conjI [OF c1 conjI [OF c2 c3]])
qed

text \<open>
  Claim C9. When no call of the client fails and nothing else changes the store, a
  second upsert of the same object succeeds as the first does and leaves the store as
  the first left it: one object under the namespace and name of the desired object,
  with the desired spec and labels, and no other key added.
\<close>

theorem upsert_idempotent:
  assumes "env_GetErr e (namespacedNameOf g) = None"
    and "\<forall>x. env_CreateErr e x = None" and "\<forall>x. env_UpdateErr e x = None"
    and "\<forall>ex. cluster w (namespacedNameOf g) = Some ex \<longrightarrow>
               namespacedNameOf ex = namespacedNameOf g"
  shows "\<exists>w1 w2 obj.
           upsertGitRepository e g w = ((namespacedNameOf g, None), w1) \<and>
           upsertGitRepository e g w1 = ((namespacedNameOf g, None), w2) \<and>
           cluster w2 = cluster w1 \<and>
           dom (cluster w2) = insert (namespacedNameOf g) (dom (cluster w)) \<and>
           cluster w2 (namespacedNameOf g) = Some obj \<and>
           namespacedNameOf obj = namespacedNameOf g \<and>
           Spec obj = Spec g \<and>
           Labels (ObjectMeta obj) = Labels (ObjectMeta g)"
proof -
  let ?nn = "namespacedNameOf g"
  have step: "\<exists>w1 obj. upsertGitRepository e g w0 = ((?nn, None), w1) \<and>
      cluster w1 = (cluster w0)(?nn \<mapsto> obj) \<and>
      namespacedNameOf obj = ?nn \<and> Spec obj = Spec g \<and>
      Labels (ObjectMeta obj) = Labels (ObjectMeta g) \<and>
      (\<forall>ex. cluster w0 ?nn = Some ex \<longrightarrow>
         obj = ex\<lparr>ObjectMeta := (ObjectMeta ex)\<lparr>Labels := Labels (ObjectMeta g)\<rparr>, Spec := Spec g\<rparr>) \<and>
      (cluster w0 ?nn = None \<longrightarrow> obj = g)"
    if wf: "\<forall>ex. cluster w0 ?nn = Some ex \<longrightarrow> namespacedNameOf ex = ?nn" for w0
  proof (cases "cluster w0 ?nn")
    case None
    have m: "env_GetErr e ?nn = None \<and> cluster w0 ?nn = None \<or> env_GetErr e ?nn = Some ErrNotFound"
      using assms(1) None by simp
    show ?thesis
      using None assms(2)
      by (simp add: upsert_missing [OF m] kubeClient_Create_def logEvent_def Let_def)
  next
    case (Some ex)
    let ?upd = "ex\<lparr>ObjectMeta := (ObjectMeta ex)\<lparr>Labels := Labels (ObjectMeta g)\<rparr>, Spec := Spec g\<rparr>"
    from wf Some have k: "namespacedNameOf ex = ?nn" by simp
    then have ku: "namespacedNameOf ?upd = ?nn" by (simp add: namespacedNameOf_def)
    show ?thesis
      using Some assms(3) ku
      by (simp add: upsert_found [OF assms(1) Some] kubeClient_Update_def logEvent_def Let_def)
  qed
  from step [of w] assms(4) obtain w1 obj1 where
    s1: "upsertGitRepository e g w = ((?nn, None), w1)"
      "cluster w1 = (cluster w)(?nn \<mapsto> obj1)"
      "namespacedNameOf obj1 = ?nn" "Spec obj1 = Spec g"
      "Labels (ObjectMeta obj1) = Labels (ObjectMeta g)" by blast
  have wf1: "\<forall>ex. cluster w1 ?nn = Some ex \<longrightarrow> namespacedNameOf ex = ?nn"
    using s1 by simp
  from step [of w1] wf1 obtain w2 obj2 where
    s2: "upsertGitRepository e g w1 = ((?nn, None), w2)"
      "cluster w2 = (cluster w1)(?nn \<mapsto> obj2)"
      "\<forall>ex. cluster w1 ?nn = Some ex \<longrightarrow>
         obj2 = ex\<lparr>ObjectMeta := (ObjectMeta ex)\<lparr>Labels := Labels (ObjectMeta g)\<rparr>, Spec := Spec g\<rparr>"
    by blast
  from s1 s2(3) have "obj2 =
      obj1\<lparr>ObjectMeta := (ObjectMeta obj1)\<lparr>Labels := Labels (ObjectMeta g)\<rparr>, Spec := Spec g\<rparr>"
    by simp
  with s1(4,5) have o: "obj2 = obj1" by simp
  have same: "cluster w2 = cluster w1" using s1(2) s2(2) o by simp
  have d: "dom (cluster w2) = insert ?nn (dom (cluster w))" using same s1(2) by simp
  have l: "cluster w2 ?nn = Some obj1" using same s1(2) by simp
  from s1 s2(1) same d l show ?thesis by blast
qed

lemma example_names:
  "namespacedNameOf desiredObject = podinfo"
  "namespacedNameOf existingObject = podinfo"
  by (simp_all add: namespacedNameOf_def desiredObject_def existingObject_def
      newGitRepository_def newObjectMeta_def exampleObject_def exampleFlags_def podinfo_def)

lemma exampleEnv_client:
  "env_GetErr exampleEnv nn = None"
  "env_CreateErr exampleEnv x = None"
  "env_UpdateErr exampleEnv x = None"
  "env_GetErr (exampleEnv\<lparr>env_GetErr := \<lambda>nn. Some err\<rparr>) nn = Some err"
  by (simp_all add: exampleEnv_def)

theorem upsert_replaces_labels_and_spec_witness:
  "(\<exists>upd. cluster (snd (upsertGitRepository exampleEnv desiredObject
                      \<lparr>events = [], cluster = [podinfo \<mapsto> existingObject]\<rparr>)) =
             [podinfo \<mapsto> upd] \<and>
          events (snd (upsertGitRepository exampleEnv desiredObject
                      \<lparr>events = [], cluster = [podinfo \<mapsto> existingObject]\<rparr>)) =
             [EvGet podinfo, EvUpdate upd] \<and>
          Spec upd = Spec desiredObject \<and>
          Labels (ObjectMeta upd) = [''team'' \<mapsto> ''dev''] \<and>
          ResourceVersion (ObjectMeta upd) = ''41'' \<and>
          UID (ObjectMeta upd) = ''u-1'' \<and>
          Status upd = Status existingObject) \<and>
   cluster (snd (upsertGitRepository exampleEnv desiredObject emptyWorld)) =
     [podinfo \<mapsto> desiredObject] \<and>
   events (snd (upsertGitRepository exampleEnv desiredObject emptyWorld)) =
     [EvGet podinfo, EvCreate desiredObject] \<and>
   upsertGitRepository (exampleEnv\<lparr>env_GetErr := \<lambda>nn. Some (ErrOther ''forbidden'')\<rparr>)
     desiredObject emptyWorld =
     ((podinfo, Some (ErrOther ''forbidden'')), logEvent (EvGet podinfo) emptyWorld)"
proof -
  let ?w = "\<lparr>events = [], cluster = [podinfo \<mapsto> existingObject]\<rparr>"
  let ?e3 = "exampleEnv\<lparr>env_GetErr := \<lambda>nn. Some (ErrOther ''forbidden'')\<rparr>"
  note t1 = upsert_replaces_labels_and_spec
    [where e = exampleEnv and g = desiredObject and w = ?w and existing = existingObject]
  note t2 = upsert_replaces_labels_and_spec
    [where e = exampleEnv and g = desiredObject and w = emptyWorld]
  note t3 = upsert_replaces_labels_and_spec
    [where e = ?e3 and g = desiredObject and w = emptyWorld and err = "ErrOther ''forbidden''"]
  have h1: "env_GetErr exampleEnv (namespacedNameOf desiredObject) = None \<and>
      cluster ?w (namespacedNameOf desiredObject) = Some existingObject \<and>
      namespacedNameOf existingObject = namespacedNameOf desiredObject"
    by (simp add: example_names exampleEnv_client)
  from mp [OF conjunct1 [OF t1] h1] obtain upd where
    u: "events (snd (upsertGitRepository exampleEnv desiredObject ?w)) =
          events ?w @ [EvGet (namespacedNameOf desiredObject), EvUpdate upd]"
      "Labels (ObjectMeta upd) = Labels (ObjectMeta desiredObject)"
      "Spec upd = Spec desiredObject"
      "ResourceVersion (ObjectMeta upd) = ResourceVersion (ObjectMeta existingObject)"
      "UID (ObjectMeta upd) = UID (ObjectMeta existingObject)"
      "Status upd = Status existingObject"
      "cluster (snd (upsertGitRepository exampleEnv desiredObject ?w)) =
         (if env_UpdateErr exampleEnv upd = None
          then (cluster ?w)(namespacedNameOf desiredObject \<mapsto> upd) else cluster ?w)"
    by blast
  have a: "\<exists>upd. cluster (snd (upsertGitRepository exampleEnv desiredObject ?w)) =
             [podinfo \<mapsto> upd] \<and>
          events (snd (upsertGitRepository exampleEnv desiredObject ?w)) =
             [EvGet podinfo, EvUpdate upd] \<and>
          Spec upd = Spec desiredObject \<and>
          Labels (ObjectMeta upd) = [''team'' \<mapsto> ''dev''] \<and>
          ResourceVersion (ObjectMeta upd) = ''41'' \<and>
          UID (ObjectMeta upd) = ''u-1'' \<and>
          Status upd = Status existingObject"
    apply (rule exI [of _ upd])
    using u
    apply (simp add: example_names exampleEnv_client)
    apply (simp add: desiredObject_def existingObject_def newGitRepository_def newObjectMeta_def
        exampleObject_def)
    done
  have h2: "env_GetErr exampleEnv (namespacedNameOf desiredObject) = None \<and>
      cluster emptyWorld (namespacedNameOf desiredObject) = None"
    by (simp add: exampleEnv_client emptyWorld_def)
  from mp [OF conjunct1 [OF conjunct2 [OF t2]] h2]
  have b: "cluster (snd (upsertGitRepository exampleEnv desiredObject emptyWorld)) =
     [podinfo \<mapsto> desiredObject]"
    and c: "events (snd (upsertGitRepository exampleEnv desiredObject emptyWorld)) =
     [EvGet podinfo, EvCreate desiredObject]"
    by (simp_all add: example_names exampleEnv_client emptyWorld_def)
  have h3: "env_GetErr ?e3 (namespacedNameOf desiredObject) = Some (ErrOther ''forbidden'') \<and>
      ErrOther ''forbidden'' \<noteq> ErrNotFound"
    by (simp add: exampleEnv_client)
  from mp [OF conjunct2 [OF conjunct2 [OF t3]] h3]
  have d: "upsertGitRepository ?e3 desiredObject emptyWorld =
     ((podinfo, Some (ErrOther ''forbidden'')), logEvent (EvGet podinfo) emptyWorld)"
    by (simp add: example_names)
  show ?thesis by (rule conjI [OF a conjI [OF b conjI [OF c d]]])
qed

theorem upsert_idempotent_witness:
  "(\<exists>w1 w2 obj.
      upsertGitRepository exampleEnv desiredObject emptyWorld = ((podinfo, None), w1) \<and>
      upsertGitRepository exampleEnv desiredObject w1 = ((podinfo, None), w2) \<and>
      cluster w2 = cluster w1 \<and>
      dom (cluster w2) = {podinfo} \<and>
      cluster w2 podinfo = Some obj \<and>
      Spec obj = Spec desiredObject) \<and>
   (\<exists>w1 w2 obj.
      upsertGitRepository exampleEnv desiredObject
        \<lparr>events = [], cluster = [podinfo \<mapsto> existingObject]\<rparr> = ((podinfo, None), w1) \<and>
      upsertGitRepository exampleEnv desiredObject w1 = ((podinfo, None), w2) \<and>
      cluster w2 = cluster w1 \<and>
      dom (cluster w2) = {podinfo} \<and>
      cluster w2 podinfo = Some obj \<and>
      Spec obj = Spec desiredObject)"
proof -
  let ?w = "\<lparr>events = [], cluster = [podinfo \<mapsto> existingObject]\<rparr>"
  have f: "env_GetErr exampleEnv (namespacedNameOf desiredObject) = None"
    "\<forall>x. env_CreateErr exampleEnv x = None" "\<forall>x. env_UpdateErr exampleEnv x = None"
    by (simp_all add: exampleEnv_client)
  have wf1: "\<forall>ex. cluster emptyWorld (namespacedNameOf desiredObject) = Some ex \<longrightarrow>
      namespacedNameOf ex = namespacedNameOf desiredObject"
    by (simp add: emptyWorld_def)
  have wf2: "\<forall>ex. cluster ?w (namespacedNameOf desiredObject) = Some ex \<longrightarrow>
      namespacedNameOf ex = namespacedNameOf desiredObject"
    by (simp add: example_names)
  have a: "\<exists>w1 w2 obj.
      upsertGitRepository exampleEnv desiredObject emptyWorld = ((podinfo, None), w1) \<and>
      upsertGitRepository exampleEnv desiredObject w1 = ((podinfo, None), w2) \<and>
      cluster w2 = cluster w1 \<and>
      dom (cluster w2) = {podinfo} \<and>
      cluster w2 podinfo = Some obj \<and>
      Spec obj = Spec desiredObject"
    using upsert_idempotent [OF f wf1] by (simp add: example_names emptyWorld_def) blast
  have b: "\<exists>w1 w2 obj.
      upsertGitRepository exampleEnv desiredObject ?w = ((podinfo, None), w1) \<and>
      upsertGitRepository exampleEnv desiredObject w1 = ((podinfo, None), w2) \<and>
      cluster w2 = cluster w1 \<and>
      dom (cluster w2) = {podinfo} \<and>
      cluster w2 podinfo = Some obj \<and>
      Spec obj = Spec desiredObject"
    using upsert_idempotent [OF f wf2] by (simp add: example_names) blast
  show ?thesis by (rule conjI [OF a b])
qed

end
